theory Spec2Isabelle
  imports Main
begin

section \<open>Python values\<close>

text \<open>
  The client passes hosts, ports, tokens and descriptor fields around as dynamically
  typed Python values. The scalars that occur (\<open>None\<close>, booleans, integers and
  strings) are a datatype; a string is a list of code points below 256.
\<close>

datatype pyval = PNone | PBool bool | PInt int | PStr string

text \<open>Python truthiness (\<open>not host\<close>, \<open>if v\<close>).\<close>

fun truthy :: "pyval \<Rightarrow> bool" where
  "truthy PNone = False"
| "truthy (PBool b) = b"
| "truthy (PInt n) = (n \<noteq> 0)"
| "truthy (PStr s) = (s \<noteq> [])"

text \<open>Python \<open>==\<close> on scalars: a boolean equals the integer 0 or 1.\<close>

fun num_of :: "pyval \<Rightarrow> int option" where
  "num_of (PBool b) = Some (if b then 1 else 0)"
| "num_of (PInt n) = Some n"
| "num_of PNone = None"
| "num_of (PStr s) = None"

definition py_eq :: "pyval \<Rightarrow> pyval \<Rightarrow> bool" where
  "py_eq a b =
     (case num_of a of
        Some m \<Rightarrow> (case num_of b of Some n \<Rightarrow> m = n | None \<Rightarrow> False)
      | None \<Rightarrow> a = b)"

text \<open>Decimal printing of an integer, for \<open>str()\<close> and f-strings.\<close>

fun nat_digits :: "nat \<Rightarrow> string" where
  "nat_digits n =
     (if n < 10 then [char_of (48 + n)]
      else nat_digits (n div 10) @ [char_of (48 + n mod 10)])"

definition int_str :: "int \<Rightarrow> string" where
  "int_str i = (if i < 0 then CHR ''-'' # nat_digits (nat (- i)) else nat_digits (nat i))"

fun py_str :: "pyval \<Rightarrow> string" where
  "py_str PNone = ''None''"
| "py_str (PBool b) = (if b then ''True'' else ''False'')"
| "py_str (PInt n) = int_str n"
| "py_str (PStr s) = s"

text \<open>
  Python compares strings lexicographically by code point; a proper prefix is smaller.
\<close>

fun str_lt :: "string \<Rightarrow> string \<Rightarrow> bool" where
  "str_lt [] [] = False"
| "str_lt [] (y # ys) = True"
| "str_lt (x # xs) [] = False"
| "str_lt (x # xs) (y # ys) =
     (if (of_char x :: nat) < of_char y then True
      else if x = y then str_lt xs ys
      else False)"

text \<open>
  \<open>int(s)\<close> on a string: surrounding whitespace is stripped, one sign is allowed, and
  the rest is decimal digits, with single underscores between digits. Anything else
  raises \<open>ValueError\<close>, which is \<open>None\<close> here.
\<close>

definition is_space :: "char \<Rightarrow> bool" where
  "is_space c = ((of_char c :: nat) \<in> {9, 10, 11, 12, 13, 32, 133, 160})"

definition is_digit :: "char \<Rightarrow> bool" where
  "is_digit c = (48 \<le> (of_char c :: nat) \<and> (of_char c :: nat) \<le> 57)"

definition strip_ws :: "string \<Rightarrow> string" where
  "strip_ws s = rev (dropWhile is_space (rev (dropWhile is_space s)))"

fun digits_ok :: "string \<Rightarrow> bool" where
  "digits_ok [] = False"
| "digits_ok [c] = is_digit c"
| "digits_ok (c # d # rest) =
     (is_digit c \<and> (if d = CHR ''_'' then digits_ok rest else digits_ok (d # rest)))"

definition digits_val :: "string \<Rightarrow> int" where
  "digits_val s = foldl (\<lambda>a c. 10 * a + (int (of_char c) - 48)) 0 (filter is_digit s)"

definition unsigned_int :: "string \<Rightarrow> int option" where
  "unsigned_int s = (if digits_ok s then Some (digits_val s) else None)"

definition py_int :: "string \<Rightarrow> int option" where
  "py_int s =
     (case strip_ws s of
        [] \<Rightarrow> None
      | c # rest \<Rightarrow>
          if c = CHR ''-'' then map_option uminus (unsigned_int rest)
          else if c = CHR ''+'' then unsigned_int rest
          else unsigned_int (c # rest))"

section \<open>Module constants\<close>

definition DEFAULT_API_VERSION :: string where "DEFAULT_API_VERSION = ''v6''"
definition DEFAULT_DEVICE_NAME :: string where "DEFAULT_DEVICE_NAME = ''Freebox Server''"
definition DEFAULT_HOST :: string where "DEFAULT_HOST = ''mafreebox.freebox.fr''"
definition DEFAULT_HTTP_PORT :: string where "DEFAULT_HTTP_PORT = ''80''"
definition DEFAULT_HTTPS_PORT :: string where "DEFAULT_HTTPS_PORT = ''443''"
definition DEFAULT_SSL :: bool where "DEFAULT_SSL = True"
definition DEFAULT_UNKNOWN :: string where "DEFAULT_UNKNOWN = ''None''"

section \<open>Host and port resolution\<close>

text \<open>
  \<open>_disc_set_host_and_port\<close>: the transport marker \<open>s\<close> is \<open>''s''\<close> (TLS) unless the
  port is the plain default; missing values are then filled in, and a missing port with
  a given host forces the plain port and the plain transport.
\<close>

definition disc_set_host_and_port :: "pyval \<Rightarrow> pyval \<Rightarrow> pyval \<times> pyval \<times> string" where
  "disc_set_host_and_port host port =
     (let s = (if DEFAULT_SSL \<and> \<not> py_eq port (PStr DEFAULT_HTTP_PORT) then ''s'' else '''')
      in if \<not> truthy host \<and> \<not> truthy port then
           (PStr DEFAULT_HOST,
            PStr (if DEFAULT_SSL then DEFAULT_HTTPS_PORT else DEFAULT_HTTP_PORT), s)
         else if \<not> truthy port then (host, PStr DEFAULT_HTTP_PORT, '''')
         else if \<not> truthy host then (PStr DEFAULT_HOST, port, s)
         else (host, port, s))"

section \<open>Dictionaries, errors, the client and its surroundings\<close>

text \<open>
  A Python dict with string keys is an association list in insertion order, with each
  key once. Its values are the scalars above; nested JSON values are left out.
\<close>

type_synonym dict = "(string \<times> pyval) list"

definition dict_get :: "dict \<Rightarrow> string \<Rightarrow> pyval option" where
  "dict_get d k = map_of d k"

text \<open>\<open>d[k] = v\<close>: an existing key keeps its place, a new key goes last.\<close>

fun dict_set :: "string \<Rightarrow> pyval \<Rightarrow> dict \<Rightarrow> dict" where
  "dict_set k v [] = [(k, v)]"
| "dict_set k v (p # ps) = (if fst p = k then (k, v) # ps else p # dict_set k v ps)"

text \<open>Python \<open>==\<close> on dicts: the same keys, with equal values, whatever the order.\<close>

definition dict_le :: "dict \<Rightarrow> dict \<Rightarrow> bool" where
  "dict_le a b =
     list_all (\<lambda>k. case dict_get a k of
                      None \<Rightarrow> True
                    | Some x \<Rightarrow> (case dict_get b k of None \<Rightarrow> False | Some y \<Rightarrow> py_eq x y))
       (map fst a)"

definition dict_eq :: "dict \<Rightarrow> dict \<Rightarrow> bool" where
  "dict_eq a b = (dict_le a b \<and> dict_le b a)"

text \<open>What \<open>discover\<close> returns and what a \<open>ValueError\<close> carries: a scalar or a dict.\<close>

datatype pyobj = Scalar pyval | Dict dict

text \<open>
  The exceptions that the modelled code raises or lets through. \<open>JSONDecodeError\<close> is
  a subclass of \<open>ValueError\<close>; \<open>ValueError None\<close> is one raised without arguments.
\<close>

datatype error =
    InvalidTokenError string
  | NotOpenError string
  | AuthorizationError string
  | HttpRequestError string
  | ValueError "pyobj option"
  | JSONDecodeError string
  | KeyError string
  | IndexError
  | TypeError
  | AttributeError
  | RuntimeError
  | OSError
  | ClientError

fun is_ValueError :: "error \<Rightarrow> bool" where
  "is_ValueError (ValueError a) = True"
| "is_ValueError (JSONDecodeError m) = True"
| "is_ValueError e = False"

text \<open>\<open>err.args[0]\<close> of a caught \<open>ValueError\<close>.\<close>

fun args0 :: "error \<Rightarrow> error + pyobj" where
  "args0 (ValueError (Some a)) = Inr a"
| "args0 (ValueError None) = Inl IndexError"
| "args0 (JSONDecodeError m) = Inr (Scalar (PStr m))"
| "args0 e = Inl AttributeError"

text \<open>
  A function that polls the appliance may not return. Its result is \<open>Done\<close> with a
  value, \<open>Raise\<close> with an exception, or \<open>Polling\<close> when the appliance's scripted
  replies ran out while the loop was still asking.
\<close>

datatype 'a outcome = Done 'a | Raise error | Polling

text \<open>What the code does to the outside, in order.\<close>

datatype log_level = Debug | Info | Warning | Error

datatype url = Url string | Urljoin string string

datatype event =
    Log log_level string
  | Print string
  | Sleep_ms nat
  | Tcp_probe pyval int
  | Session_open
  | Session_close
  | Http_get url
  | Http_post url dict
  | File_write string

text \<open>
  A credential file holds a JSON object or something \<open>json.load\<close> rejects; the body of
  an HTTP reply likewise.
\<close>

datatype json_doc = Json_object dict | Unparsable string

text \<open>
  The HTTP session of aiohttp, as far as the code looks into it: whether it is closed,
  and the keys of its pooled connections (\<open>_connector._conns\<close>), oldest first.
\<close>

record conn_key =
  conn_host :: string
  conn_port :: int
  conn_is_ssl :: bool

record session =
  closed :: bool
  conns :: "conn_key list"

text \<open>The \<open>Access\<close> object that \<open>open\<close> builds (its class is a collaborator).\<close>

record access =
  acc_base_url :: string
  acc_app_token :: pyval
  acc_app_id :: pyval

text \<open>
  The \<open>Freepybox\<close> object (\<open>self\<close>) together with the files and the trace of events.
  Timeouts are passed through to the HTTP library unchanged and are left out.
\<close>

record client =
  self_api_version :: string
  self_app_desc :: dict
  self_fbx_desc :: "dict option"
  self_fbx_url :: string
  self_token_file :: string
  self_access :: "access option"
  self_session :: "session option"
  files :: "string \<rightharpoonup> json_doc"
  trace :: "event list"

text \<open>
  The replies of the network and of the library functions outside the repository. A
  request for \<open>/api_version\<close> fails the certificate check, fails otherwise (aiohttp's
  \<open>ClientError\<close>), or is answered with a content type and a body.
\<close>

datatype connect_result = Connected | Refused | Connect_raises

datatype get_reply =
    Get_ssl_error string
  | Get_raises
  | Get_reply string json_doc

record auth_response =
  success :: "pyval option"
  result :: "dict option"
  dumped :: string

record env =
  ipv4_network_ok :: "pyval \<Rightarrow> bool"
  ipv6_network_ok :: "pyval \<Rightarrow> bool"
  connect_ex :: "pyval \<Rightarrow> int \<Rightarrow> connect_result"
  cert_verify_fails :: bool
  get_api_version :: "string \<Rightarrow> get_reply"
  post_authorize :: "string \<Rightarrow> dict \<Rightarrow> auth_response"
  statuses :: "string list"
  int_error_message :: "pyval \<Rightarrow> string"

definition emit :: "event \<Rightarrow> client \<Rightarrow> client" where
  "emit e st = st\<lparr>trace := trace st @ [e]\<rparr>"

text \<open>\<open>int(v)\<close> on a scalar.\<close>

fun int_of :: "env \<Rightarrow> pyval \<Rightarrow> error + int" where
  "int_of ev PNone = Inl TypeError"
| "int_of ev (PBool b) = Inr (if b then 1 else 0)"
| "int_of ev (PInt n) = Inr n"
| "int_of ev (PStr s) =
     (case py_int s of
        None \<Rightarrow> Inl (ValueError (Some (Scalar (PStr (int_error_message ev (PStr s))))))
      | Some n \<Rightarrow> Inr n)"

section \<open>The credential store\<close>

definition IDENTITY_KEYS :: "string list" where
  "IDENTITY_KEYS = [''app_id'', ''app_name'', ''app_version'', ''device_name'']"

text \<open>\<open>_is_app_desc_valid\<close>\<close>

definition is_app_desc_valid :: "dict \<Rightarrow> bool" where
  "is_app_desc_valid app_desc = list_all (\<lambda>k. dict_get app_desc k \<noteq> None) IDENTITY_KEYS"

text \<open>
  \<open>_readfile_app_token\<close>: a missing file gives three \<open>None\<close>s; otherwise the token, the
  track id and the identity fields that the file has.
\<close>

definition readfile_app_token :: "string \<Rightarrow> client \<Rightarrow> error + (pyval \<times> pyval \<times> dict option)" where
  "readfile_app_token file st =
     (case files st file of
        None \<Rightarrow> Inr (PNone, PNone, None)
      | Some (Unparsable m) \<Rightarrow> Inl (JSONDecodeError m)
      | Some (Json_object d) \<Rightarrow>
          (case dict_get d ''app_token'' of
             None \<Rightarrow> Inl (KeyError ''app_token'')
           | Some app_token \<Rightarrow>
               (case dict_get d ''track_id'' of
                  None \<Rightarrow> Inl (KeyError ''track_id'')
                | Some track_id \<Rightarrow>
                    Inr (app_token, track_id,
                         Some (List.map_filter (\<lambda>k. map_option (Pair k) (dict_get d k))
                                 IDENTITY_KEYS)))))"

text \<open>
  \<open>_writefile_app_token\<close>: the descriptor with the token and the track id set, written
  over whatever the file held.
\<close>

definition writefile_app_token :: "pyval \<Rightarrow> pyval \<Rightarrow> dict \<Rightarrow> string \<Rightarrow> client \<Rightarrow> client" where
  "writefile_app_token app_token track_id app_desc file st =
     (let d = dict_set ''track_id'' track_id (dict_set ''app_token'' app_token app_desc)
      in emit (File_write file) (st\<lparr>files := (files st)(file \<mapsto> Json_object d)\<rparr>))"

section \<open>Pairing\<close>

text \<open>
  A request on \<open>self._session\<close> needs a session that is not closed: without one the
  attribute access fails, and aiohttp refuses a closed session.
\<close>

definition require_session :: "client \<Rightarrow> error option" where
  "require_session st =
     (case self_session st of
        None \<Rightarrow> Some AttributeError
      | Some sess \<Rightarrow> if closed sess then Some RuntimeError else None)"

text \<open>
  \<open>_get_base_url\<close>: the scheme is read off the first pooled connection of the session;
  with an API version the appliance's \<open>api_base_url\<close> and the version are appended.
\<close>

definition get_base_url :: "pyval \<Rightarrow> pyval \<Rightarrow> string option \<Rightarrow> client \<Rightarrow> error + string" where
  "get_base_url host port freebox_api_version st =
     (case self_session st of
        None \<Rightarrow> Inl AttributeError
      | Some sess \<Rightarrow>
          if closed sess then Inl AttributeError
          else (case conns sess of
                  [] \<Rightarrow> Inl IndexError
                | k # ks \<Rightarrow>
                    (let s = (if conn_is_ssl k then ''s'' else '''');
                         root = ''http'' @ s @ ''://'' @ py_str host @ '':'' @ py_str port
                     in case freebox_api_version of
                          None \<Rightarrow> Inr root
                        | Some v \<Rightarrow>
                            (case self_fbx_desc st of
                               None \<Rightarrow> Inl TypeError
                             | Some d \<Rightarrow>
                                 (case dict_get d ''api_base_url'' of
                                    None \<Rightarrow> Inl (KeyError ''api_base_url'')
                                  | Some abu \<Rightarrow> Inr (root @ py_str abu @ v @ ''/''))))))"

text \<open>
  \<open>_get_app_token\<close>: posts the descriptor to \<open>login/authorize/\<close>; a reply without a
  true \<open>success\<close> raises, otherwise the token and the track id are taken from \<open>result\<close>.
\<close>

definition get_app_token ::
  "env \<Rightarrow> string \<Rightarrow> dict \<Rightarrow> client \<Rightarrow> (error + (pyval \<times> pyval)) \<times> client" where
  "get_app_token ev base_url app_desc st =
     (case require_session st of
        Some e \<Rightarrow> (Inl e, st)
      | None \<Rightarrow>
          (let st1 = emit (Http_post (Urljoin base_url ''login/authorize/'') app_desc) st;
               resp = post_authorize ev base_url app_desc
           in if \<not> (case success resp of None \<Rightarrow> False | Some v \<Rightarrow> truthy v) then
                (Inl (AuthorizationError
                        (''Authorization failed (APIResponse: '' @ dumped resp @ '').'')), st1)
              else (case result resp of
                      None \<Rightarrow> (Inl (KeyError ''result''), st1)
                    | Some r \<Rightarrow>
                        (case dict_get r ''app_token'' of
                           None \<Rightarrow> (Inl (KeyError ''app_token''), st1)
                         | Some app_token \<Rightarrow>
                             (case dict_get r ''track_id'' of
                                None \<Rightarrow> (Inl (KeyError ''track_id''), st1)
                              | Some track_id \<Rightarrow> (Inr (app_token, track_id), st1))))))"

text \<open>
  \<open>_get_authorization_status\<close>: one request for the status of the track id; \<open>reply\<close> is
  the status that the appliance answers with.
\<close>

definition get_authorization_status ::
  "string \<Rightarrow> pyval \<Rightarrow> string \<Rightarrow> client \<Rightarrow> (error + string) \<times> client" where
  "get_authorization_status base_url track_id reply st =
     (case require_session st of
        Some e \<Rightarrow> (Inl e, st)
      | None \<Rightarrow>
          (Inr reply,
           emit (Http_get (Urljoin base_url (''login/authorize/'' @ py_str track_id))) st))"

text \<open>
  The loop \<open>while status != "granted"\<close> of \<open>_get_app_access\<close>, over the statuses that
  the appliance will answer with. \<open>denied\<close> and \<open>timeout\<close> raise, \<open>pending\<close> prints the
  prompt once and sleeps a second, \<open>granted\<close> leaves the loop, and any other status goes
  straight to the next request.
\<close>

fun authorization_loop ::
  "string \<Rightarrow> pyval \<Rightarrow> string list \<Rightarrow> bool \<Rightarrow> client \<Rightarrow> unit outcome \<times> client" where
  "authorization_loop base_url track_id [] out_msg_flag st = (Polling, st)"
| "authorization_loop base_url track_id (reply # replies) out_msg_flag st =
     (case get_authorization_status base_url track_id reply st of
        (Inl e, st1) \<Rightarrow> (Raise e, st1)
      | (Inr status, st1) \<Rightarrow>
          if status = ''denied'' then
            (Raise (AuthorizationError ''The app token is invalid or has been revoked.''), st1)
          else if status = ''pending'' then
            (let st2 = (if \<not> out_msg_flag
                        then emit (Print ''Please confirm the authentification on the freebox.'') st1
                        else st1);
                 st3 = emit (Sleep_ms 1000) st2
             in authorization_loop base_url track_id replies True st3)
          else if status = ''timeout'' then
            (Raise (AuthorizationError ''Authorization timed out.''), st1)
          else if status \<noteq> ''granted'' then
            authorization_loop base_url track_id replies out_msg_flag st1
          else (Done (), st1))"

text \<open>The \<open>Access\<close> object built at the end of \<open>_get_app_access\<close>.\<close>

definition make_access :: "string \<Rightarrow> pyval \<Rightarrow> dict \<Rightarrow> client \<Rightarrow> access outcome \<times> client" where
  "make_access base_url app_token app_desc st =
     (case dict_get app_desc ''app_id'' of
        None \<Rightarrow> (Raise (KeyError ''app_id''), st)
      | Some i \<Rightarrow>
          (Done \<lparr>acc_base_url = base_url, acc_app_token = app_token, acc_app_id = i\<rparr>, st))"

text \<open>
  \<open>_get_app_access\<close>: the stored token is used when the file has one and its identity
  fields equal the caller's descriptor; otherwise the application is paired anew and the
  file is written once the appliance has granted the authorization.
\<close>

definition get_app_access ::
  "env \<Rightarrow> pyval \<Rightarrow> pyval \<Rightarrow> string \<Rightarrow> string \<Rightarrow> dict \<Rightarrow> client \<Rightarrow> access outcome \<times> client" where
  "get_app_access ev host port api_version token_file app_desc st =
     (case get_base_url host port (Some api_version) st of
        Inl e \<Rightarrow> (Raise e, st)
      | Inr base_url \<Rightarrow>
          (let st1 = emit (Log Debug ''Reading application authorization file.'') st
           in case readfile_app_token token_file st1 of
                Inl e \<Rightarrow> (Raise e, st1)
              | Inr (app_token, track_id, file_app_desc) \<Rightarrow>
                  if app_token = PNone
                     \<or> (case file_app_desc of None \<Rightarrow> True | Some d \<Rightarrow> \<not> dict_eq d app_desc)
                  then
                    (let st2 = emit (Log Warning
                           ''No valid authorization file found, requesting authorization.'') st1
                     in case get_app_token ev base_url app_desc st2 of
                          (Inl e, st3) \<Rightarrow> (Raise e, st3)
                        | (Inr (app_token, track_id), st3) \<Rightarrow>
                            (case authorization_loop base_url track_id (statuses ev) False st3 of
                               (Raise e, st4) \<Rightarrow> (Raise e, st4)
                             | (Polling, st4) \<Rightarrow> (Polling, st4)
                             | (Done u, st4) \<Rightarrow>
                                 (let st5 = emit (Log Info ''Application authorization granted.'') st4;
                                      st6 = writefile_app_token app_token track_id app_desc
                                              token_file st5;
                                      st7 = emit (Log Info (''Application token file was generated: ''
                                              @ token_file @ ''.'')) st6
                                  in make_access base_url app_token app_desc st7)))
                  else make_access base_url app_token app_desc st1))"

section \<open>API version check\<close>

text \<open>\<open>d[k]\<close> and \<open>self.fbx_desc[k]\<close>.\<close>

definition dict_item :: "dict \<Rightarrow> string \<Rightarrow> error + pyval" where
  "dict_item d k = (case dict_get d k of None \<Rightarrow> Inl (KeyError k) | Some v \<Rightarrow> Inr v)"

definition fbx_item :: "client \<Rightarrow> string \<Rightarrow> error + pyval" where
  "fbx_item st k = (case self_fbx_desc st of None \<Rightarrow> Inl TypeError | Some d \<Rightarrow> dict_item d k)"

text \<open>
  \<open>_check_api_version\<close>. The three tests are tried in the order of the \<open>if\<close>/\<open>elif\<close>
  chain; \<open>and\<close> and \<open>or\<close> evaluate \<open>int(short_api_version)\<close> only when their left side
  does not decide, and \<open>int\<close> raises on a string that is not a number.
\<close>

definition check_api_version :: "env \<Rightarrow> client \<Rightarrow> (error + unit) \<times> client" where
  "check_api_version ev st =
     (case fbx_item st ''api_version'' of
        Inl e \<Rightarrow> (Inl e, st)
      | Inr av \<Rightarrow>
          (case av of
             PStr v \<Rightarrow>
               (let server_version = takeWhile (\<lambda>c. c \<noteq> CHR ''.'') v;
                    short_api_version_target = drop 1 DEFAULT_API_VERSION;
                    st1 = (if self_api_version st = ''server''
                           then st\<lparr>self_api_version := ''v'' @ server_version\<rparr> else st);
                    short_api_version = drop 1 (self_api_version st1)
                in if str_lt short_api_version_target server_version
                      \<and> short_api_version = server_version
                   then (Inr (), emit (Log Warning (''Using new API version ''
                           @ self_api_version st1 @ '', results may vary.'')) st1)
                   else (case (if str_lt short_api_version short_api_version_target
                               then map_sum id (\<lambda>n. 0 < n) (int_of ev (PStr short_api_version))
                               else Inr False) of
                           Inl e \<Rightarrow> (Inl e, st1)
                         | Inr deprecated \<Rightarrow>
                             if deprecated
                             then (Inr (), emit (Log Warning (''Using deprecated API version ''
                                     @ self_api_version st1 @ '', results may vary.'')) st1)
                             else (case (if str_lt server_version short_api_version then Inr True
                                         else map_sum id (\<lambda>n. n < 1)
                                                (int_of ev (PStr short_api_version))) of
                                     Inl e \<Rightarrow> (Inl e, st1)
                                   | Inr unsupported \<Rightarrow>
                                       if unsupported
                                       then (Inr (),
                                             (emit (Log Warning
                                                (''Freebox server does not support this API version (''
                                                 @ self_api_version st1 @ ''), resetting to ''
                                                 @ DEFAULT_API_VERSION @ ''.'')) st1)
                                             \<lparr>self_api_version := DEFAULT_API_VERSION\<rparr>)
                                       else (Inr (), st1))))
           | _ \<Rightarrow> (Inl AttributeError, st)))"

section \<open>Discovery\<close>

text \<open>
  \<open>_disc_close_to_return\<close>: forgets the appliance's description and closes an open
  session, waiting a quarter of a second. It returns \<open>None\<close>.
\<close>

definition disc_close_to_return :: "client \<Rightarrow> client" where
  "disc_close_to_return st =
     (let st1 = (if self_fbx_desc st \<noteq> None then st\<lparr>self_fbx_desc := None\<rparr> else st)
      in case self_session st1 of
           None \<Rightarrow> st1
         | Some sess \<Rightarrow>
             if \<not> closed sess
             then emit (Sleep_ms 250)
                    (emit Session_close
                       (st1\<lparr>self_session := Some (sess\<lparr>closed := True, conns := []\<rparr>)\<rparr>))
             else st1)"

text \<open>
  \<open>_disc_connect\<close>: probes the port with a socket, then makes a new session, with the
  bundled certificates when the transport is TLS. \<open>None\<close> is returned as \<open>False\<close>.
\<close>

definition disc_connect ::
  "env \<Rightarrow> pyval \<Rightarrow> pyval \<Rightarrow> string \<Rightarrow> client \<Rightarrow> (error + bool) \<times> client" where
  "disc_connect ev host port s st =
     (case int_of ev port of
        Inl e \<Rightarrow> (Inl e, st)
      | Inr p \<Rightarrow>
          (let st1 = emit (Tcp_probe host p) st
           in case connect_ex ev host p of
                Connect_raises \<Rightarrow> (Inl OSError, st1)
              | Refused \<Rightarrow> (Inr False, disc_close_to_return st1)
              | Connected \<Rightarrow>
                  if s = ''s'' \<and> cert_verify_fails ev
                  then (Inr False, disc_close_to_return st1)
                  else (Inr True,
                        emit Session_open
                          (st1\<lparr>self_session := Some \<lparr>closed = False, conns = []\<rparr>\<rparr>))))"

text \<open>
  The connection that served a request goes back to the pool of the session once the
  body has been read; its key is the host, the port and the scheme of the URL.
\<close>

definition pooled :: "conn_key \<Rightarrow> client \<Rightarrow> client" where
  "pooled k st =
     (case self_session st of
        None \<Rightarrow> st
      | Some sess \<Rightarrow>
          st\<lparr>self_session := Some (sess\<lparr>conns := filter (\<lambda>c. c \<noteq> k) (conns sess) @ [k]\<rparr>)\<rparr>)"

text \<open>
  The second half of \<open>discover\<close>: connect when there is no open session, ask for
  \<open>/api_version\<close>, and accept the answer only as JSON from a device named as expected.
  A port that is no integer makes no URL.
\<close>

definition discover_request ::
  "env \<Rightarrow> pyval \<Rightarrow> pyval \<Rightarrow> string \<Rightarrow> client \<Rightarrow> (error + pyobj) \<times> client" where
  "discover_request ev host port s st =
     (case (if (case self_session st of None \<Rightarrow> True | Some sess \<Rightarrow> closed sess)
            then disc_connect ev host port s st else (Inr True, st)) of
        (Inl e, st1) \<Rightarrow> (Inl e, st1)
      | (Inr ok, st1) \<Rightarrow>
          if \<not> ok then (Inr (Scalar PNone), st1)
          else (case int_of ev port of
                  Inl e \<Rightarrow> (Inl e, st1)
                | Inr p \<Rightarrow>
                    (let u = ''http'' @ s @ ''://'' @ py_str host @ '':'' @ py_str port
                               @ ''/api_version'';
                         k = \<lparr>conn_host = py_str host, conn_port = p, conn_is_ssl = (s = ''s'')\<rparr>;
                         st2 = emit (Http_get (Url u)) st1
                     in case get_api_version ev u of
                          Get_ssl_error m \<Rightarrow> (Inl (HttpRequestError m), disc_close_to_return st2)
                        | Get_raises \<Rightarrow> (Inl ClientError, st2)
                        | Get_reply content_type body \<Rightarrow>
                            if content_type \<noteq> ''application/json''
                            then (Inr (Scalar PNone), disc_close_to_return st2)
                            else (case body of
                                    Unparsable m \<Rightarrow> (Inl (JSONDecodeError m), pooled k st2)
                                  | Json_object d \<Rightarrow>
                                      (let st3 = (pooled k st2)\<lparr>self_fbx_desc := Some d\<rparr>
                                       in case dict_item d ''device_name'' of
                                            Inl e \<Rightarrow> (Inl e, st3)
                                          | Inr n \<Rightarrow>
                                              if \<not> py_eq n (PStr DEFAULT_DEVICE_NAME)
                                              then (Inr (Scalar PNone), disc_close_to_return st3)
                                              else (Inr (Dict d), st3))))))"

text \<open>\<open>if self.fbx_desc and self._session is not None and not self._session.closed\<close>\<close>

definition has_live_session :: "client \<Rightarrow> bool" where
  "has_live_session st =
     ((case self_fbx_desc st of None \<Rightarrow> False | Some d \<Rightarrow> d \<noteq> [])
      \<and> (case self_session st of None \<Rightarrow> False | Some sess \<Rightarrow> \<not> closed sess))"

lemma has_live_session_closed [simp]: "\<not> has_live_session (disc_close_to_return st)"
  by (simp add: has_live_session_def disc_close_to_return_def Let_def emit_def
      split: option.splits)

text \<open>
  \<open>discover\<close> and \<open>_disc_check_session\<close>. The check raises \<open>ValueError\<close> with the cached
  description when the open session already talks to this host, port and transport, and
  with the result of a fresh \<open>discover\<close> after closing the session otherwise;
  \<open>discover\<close> returns what the \<open>ValueError\<close> carries.
\<close>

function discover :: "env \<Rightarrow> pyval \<Rightarrow> pyval \<Rightarrow> client \<Rightarrow> (error + pyobj) \<times> client"
  and disc_check_session ::
    "env \<Rightarrow> pyval \<Rightarrow> pyval \<Rightarrow> string \<Rightarrow> client \<Rightarrow> (error + (pyval \<times> pyval \<times> string)) \<times> client"
where
  "discover ev host port st =
     (if ipv6_network_ok ev host then
        (Inr (Scalar PNone),
         disc_close_to_return (emit (Log Error (py_str host @ '' : IPv6 is not supported'')) st))
      else (case disc_set_host_and_port host port of
              (h, p, s0) \<Rightarrow>
                (case disc_check_session ev h p s0 st of
                   (Inl e, st1) \<Rightarrow> if is_ValueError e then (args0 e, st1) else (Inl e, st1)
                 | (Inr (host1, port1, s), st1) \<Rightarrow> discover_request ev host1 port1 s st1)))"
| "disc_check_session ev host port s st =
     (if has_live_session st then
        (case conns (the (self_session st)) of
           [] \<Rightarrow> (Inl IndexError, st)
         | k # ks \<Rightarrow>
             (case (if py_eq (PStr (conn_host k)) host
                    then map_sum id (\<lambda>n. conn_port k = n \<and> conn_is_ssl k = (s \<noteq> ''''))
                           (int_of ev port)
                    else Inr False) of
                Inl e \<Rightarrow> (Inl e, st)
              | Inr same \<Rightarrow>
                  if same then (Inl (ValueError (Some (Dict (the (self_fbx_desc st))))), st)
                  else (case discover ev host port (disc_close_to_return st) of
                          (Inl e, st1) \<Rightarrow> (Inl e, st1)
                        | (Inr r, st1) \<Rightarrow> (Inl (ValueError (Some r)), st1))))
      else (Inr (host, port, s), st))"
  by pat_completeness auto
termination
  by (relation "measure (\<lambda>x. case x of
        Inl (ev, host, port, st) \<Rightarrow> (if has_live_session st then 3 else 1)
      | Inr (ev, host, port, s, st) \<Rightarrow> (if has_live_session st then 2 else 0))") auto

section \<open>Opening a session\<close>

text \<open>
  \<open>_open_setup\<close>: with HTTPS available the appliance's own domain replaces a missing
  or IPv4 host and its HTTPS port replaces a missing or plain port; without it the
  defaults fill in what is missing.
\<close>

definition open_setup :: "env \<Rightarrow> pyval \<Rightarrow> pyval \<Rightarrow> client \<Rightarrow> error + (pyval \<times> pyval)" where
  "open_setup ev host port st =
     (case (if DEFAULT_SSL then map_sum id truthy (fbx_item st ''https_available'')
            else Inr False) of
        Inl e \<Rightarrow> Inl e
      | Inr https \<Rightarrow>
          if https then
            (case (if host = PNone \<or> ipv4_network_ok ev host
                   then fbx_item st ''api_domain'' else Inr host) of
               Inl e \<Rightarrow> Inl e
             | Inr host1 \<Rightarrow>
                 (case (if port = PNone \<or> py_eq port (PStr DEFAULT_HTTP_PORT)
                        then fbx_item st ''https_port'' else Inr port) of
                    Inl e \<Rightarrow> Inl e
                  | Inr port1 \<Rightarrow> Inr (host1, port1)))
          else Inr (if host = PNone then PStr DEFAULT_HOST else host,
                    if port = PNone then PStr DEFAULT_HTTP_PORT else port))"

text \<open>
  The handler of \<open>_open_init\<close>: \<open>except (ValueError, HttpRequestError)\<close> turns the
  exception into \<open>NotOpenError\<close>, naming the host and the port at hand, with the string
  \<open>None\<close> for one that is \<open>None\<close> or empty.
\<close>

fun is_HttpRequestError :: "error \<Rightarrow> bool" where
  "is_HttpRequestError (HttpRequestError m) = True"
| "is_HttpRequestError e = False"

definition not_open_error :: "pyval \<Rightarrow> pyval \<Rightarrow> error" where
  "not_open_error host port =
     (let unk = PStr DEFAULT_UNKNOWN;
          host1 = (if truthy host then host else unk);
          port1 = (if truthy port then port else unk)
      in NotOpenError (''Cannot detect freebox at '' @ py_str host1 @ '':'' @ py_str port1
                       @ '', please check your configuration.''))"

definition open_except :: "pyval \<Rightarrow> pyval \<Rightarrow> error \<Rightarrow> error" where
  "open_except host port e =
     (if is_ValueError e \<or> is_HttpRequestError e then not_open_error host port else e)"

text \<open>
  \<open>_open_init\<close>: discover with the caller's values, set host and port up from the
  answer, discover again; a discovery that returns \<open>None\<close> raises \<open>ValueError\<close> into the
  handler. Then the API version is checked and the base URL is stored.
\<close>

definition open_init ::
  "env \<Rightarrow> pyval \<Rightarrow> pyval \<Rightarrow> client \<Rightarrow> (error + (pyval \<times> pyval)) \<times> client" where
  "open_init ev host port st =
     (case discover ev host port st of
        (Inl e, st1) \<Rightarrow> (Inl (open_except host port e), st1)
      | (Inr r1, st1) \<Rightarrow>
          if r1 = Scalar PNone then (Inl (open_except host port (ValueError None)), st1)
          else (case open_setup ev host port st1 of
                  Inl e \<Rightarrow> (Inl (open_except host port e), st1)
                | Inr (host1, port1) \<Rightarrow>
                    (case discover ev host1 port1 st1 of
                       (Inl e, st2) \<Rightarrow> (Inl (open_except host1 port1 e), st2)
                     | (Inr r2, st2) \<Rightarrow>
                         if r2 = Scalar PNone
                         then (Inl (open_except host1 port1 (ValueError None)), st2)
                         else (case check_api_version ev st2 of
                                 (Inl e, st3) \<Rightarrow> (Inl e, st3)
                               | (Inr u, st3) \<Rightarrow>
                                   (case get_base_url host1 port1 None st3 of
                                      Inl e \<Rightarrow> (Inl e, st3)
                                    | Inr fbx_url \<Rightarrow>
                                        (Inr (host1, port1),
                                         st3\<lparr>self_fbx_url := fbx_url\<rparr>))))))"

text \<open>
  \<open>open\<close>: the descriptor is validated, \<open>_open_init\<close> resolves host and port, and
  \<open>_get_app_access\<close> is called with the API version as it stands after the check.
\<close>

definition open_fbx :: "env \<Rightarrow> pyval \<Rightarrow> pyval \<Rightarrow> client \<Rightarrow> unit outcome \<times> client" where
  "open_fbx ev host port st =
     (if \<not> is_app_desc_valid (self_app_desc st)
      then (Raise (InvalidTokenError ''Invalid application descriptor''), st)
      else (case open_init ev host port st of
              (Inl e, st1) \<Rightarrow> (Raise e, st1)
            | (Inr (host1, port1), st1) \<Rightarrow>
                (case get_app_access ev host1 port1 (self_api_version st1)
                        (self_token_file st1) (self_app_desc st1) st1 of
                   (Done a, st2) \<Rightarrow> (Done (), st2\<lparr>self_access := Some a\<rparr>)
                 | (Raise e, st2) \<Rightarrow> (Raise e, st2)
                 | (Polling, st2) \<Rightarrow> (Polling, st2))))"

section \<open>A client and an appliance to run the functions on\<close>

text \<open>
  \<open>Freepybox.__init__\<close> with every argument given, in a world with the files \<open>fs\<close>.
\<close>

definition init_client :: "dict \<Rightarrow> string \<Rightarrow> string \<Rightarrow> (string \<rightharpoonup> json_doc) \<Rightarrow> client" where
  "init_client app_desc token_file api_version fs =
     \<lparr>self_api_version = api_version, self_app_desc = app_desc, self_fbx_desc = None,
      self_fbx_url = '''', self_token_file = token_file, self_access = None,
      self_session = None, files = fs, trace = []\<rparr>"

definition demo_desc :: dict where
  "demo_desc = [(''app_id'', PStr ''aiofpbx''), (''app_name'', PStr ''aiofreepybox''),
                (''app_version'', PStr ''6.0.0''), (''device_name'', PStr ''laptop'')]"

definition demo_fbx_desc :: dict where
  "demo_fbx_desc = [(''device_name'', PStr ''Freebox Server''), (''api_version'', PStr ''8.0''),
                    (''api_base_url'', PStr ''/api/''), (''https_available'', PBool True),
                    (''api_domain'', PStr ''abcd.fbxos.fr''), (''https_port'', PInt 16129)]"

text \<open>
  An appliance that answers every probe with \<open>demo_fbx_desc\<close>, accepts the
  authorization request and reports the statuses \<open>sts\<close>.
\<close>

definition demo_env :: "string list \<Rightarrow> env" where
  "demo_env sts =
     \<lparr>ipv4_network_ok = (\<lambda>h. h = PStr ''192.168.1.254''),
      ipv6_network_ok = (\<lambda>h. False),
      connect_ex = (\<lambda>h p. Connected),
      cert_verify_fails = False,
      get_api_version = (\<lambda>u. Get_reply ''application/json'' (Json_object demo_fbx_desc)),
      post_authorize = (\<lambda>b d. \<lparr>success = Some (PBool True),
                                 result = Some [(''app_token'', PStr ''tok''), (''track_id'', PInt 42)],
                                 dumped = ''{}''\<rparr>),
      statuses = sts,
      int_error_message = (\<lambda>v. ''invalid literal for int() with base 10'')\<rparr>"

definition demo_client :: client where
  "demo_client =
     (init_client demo_desc ''app_auth'' ''v6'' Map.empty)
       \<lparr>self_fbx_desc := Some demo_fbx_desc,
        self_session := Some \<lparr>closed = False,
          conns = [\<lparr>conn_host = ''abcd.fbxos.fr'', conn_port = 16129, conn_is_ssl = True\<rparr>]\<rparr>\<rparr>"

text \<open>A client that asks for the version \<open>requested\<close> of an appliance advertising \<open>advertised\<close>.\<close>

definition versioned :: "string \<Rightarrow> string \<Rightarrow> client" where
  "versioned requested advertised =
     (init_client demo_desc ''app_auth'' requested Map.empty)
       \<lparr>self_fbx_desc := Some [(''api_version'', PStr advertised)]\<rparr>"

text \<open>
  A client whose credential file was written for the descriptor \<open>fd\<close>, with the token
  \<open>old\<close>.
\<close>

definition stored_client :: "dict \<Rightarrow> client" where
  "stored_client fd =
     init_client demo_desc ''app_auth'' ''v6''
       [''app_auth'' \<mapsto> Json_object (fd @ [(''app_token'', PStr ''old''), (''track_id'', PInt 7)])]"

text \<open>The demo descriptor as an older version of the application had it.\<close>

definition older_desc :: dict where
  "older_desc = [(''app_id'', PStr ''aiofpbx''), (''app_name'', PStr ''aiofreepybox''),
                 (''app_version'', PStr ''5.0.0''), (''device_name'', PStr ''laptop'')]"


text \<open>
  The four identity fields of a file's object equal those of a descriptor, by Python's
  \<open>==\<close> on the values.
\<close>

definition fields_equal :: "dict \<Rightarrow> dict \<Rightarrow> bool" where
  "fields_equal fd app_desc =
     list_all (\<lambda>k. case dict_get fd k of
                      None \<Rightarrow> False
                    | Some x \<Rightarrow> (case dict_get app_desc k of None \<Rightarrow> False | Some y \<Rightarrow> py_eq x y))
       IDENTITY_KEYS"

text \<open>
  A descriptor with a fifth key, and a client that has it, with the credential file as
  \<open>_writefile_app_token\<close> writes it for that descriptor.
\<close>

definition wide_desc :: dict where
  "wide_desc = demo_desc @ [(''extra'', PStr ''x'')]"

definition wide_client :: client where
  "wide_client =
     init_client wide_desc ''app_auth'' ''v6''
       [''app_auth'' \<mapsto> Json_object (wide_desc @ [(''app_token'', PStr ''old''), (''track_id'', PInt 7)])]"

text \<open>
  The demo appliance behind a resolver that does not know the host \<open>target\<close>: the socket
  raises for it.
\<close>

definition raising_env :: "pyval \<Rightarrow> env" where
  "raising_env target =
     (demo_env [])\<lparr>connect_ex := (\<lambda>h p. if h = target then Connect_raises else Connected)\<rparr>"

text \<open>
  A network on which the host 10.0.0.1 answers the probe with a body that is not JSON,
  while the appliance answers as before; a new client after a probe of 10.0.0.1; and
  that client after a probe with nothing given.
\<close>

definition garbled_env :: env where
  "garbled_env =
     (demo_env [])\<lparr>get_api_version :=
        (\<lambda>u. if u = ''http://10.0.0.1:80/api_version''
              then Get_reply ''application/json'' (Unparsable ''Expecting value'')
              else Get_reply ''application/json'' (Json_object demo_fbx_desc))\<rparr>"

definition half_open_client :: client where
  "half_open_client =
     snd (discover garbled_env (PStr ''10.0.0.1'') PNone
            (init_client demo_desc ''app_auth'' ''v6'' Map.empty))"

definition probed_client :: client where
  "probed_client = snd (discover garbled_env PNone PNone half_open_client)"

section \<open>Reading the trace\<close>

text \<open>The events between two states of one run, and the kinds of event that claims count.\<close>

definition events_since :: "client \<Rightarrow> client \<Rightarrow> event list" where
  "events_since st st' = drop (length (trace st)) (trace st')"

fun is_print :: "event \<Rightarrow> bool" where
  "is_print (Print m) = True"
| "is_print e = False"

fun is_sleep :: "event \<Rightarrow> bool" where
  "is_sleep (Sleep_ms n) = True"
| "is_sleep e = False"

fun is_write :: "event \<Rightarrow> bool" where
  "is_write (File_write f) = True"
| "is_write e = False"

fun is_post :: "event \<Rightarrow> bool" where
  "is_post (Http_post u d) = True"
| "is_post e = False"

text \<open>A request under \<open>login/authorize/\<close>, be it the POST of the descriptor or a status GET.\<close>

fun is_authorize :: "event \<Rightarrow> bool" where
  "is_authorize (Http_post (Urljoin b rel) d) = (take 16 rel = ''login/authorize/'')"
| "is_authorize (Http_get (Urljoin b rel)) = (take 16 rel = ''login/authorize/'')"
| "is_authorize e = False"

text \<open>The statuses at which the polling loop ends.\<close>

definition terminal :: "string \<Rightarrow> bool" where
  "terminal status = (status = ''granted'' \<or> status = ''denied'' \<or> status = ''timeout'')"

text \<open>
  What discovery leaves alone: from \<open>st\<close> to \<open>st'\<close> the files, the descriptor, the path
  of the credential file and the access object are the same, and the trace has grown by
  events that are neither a file write nor a POST nor a request under \<open>login/authorize/\<close>.
\<close>

definition keeps_store :: "client \<Rightarrow> client \<Rightarrow> bool" where
  "keeps_store st st' =
     (files st' = files st \<and> self_app_desc st' = self_app_desc st
      \<and> self_token_file st' = self_token_file st \<and> self_access st' = self_access st
      \<and> (\<exists>evs. trace st' = trace st @ evs \<and> \<not> list_ex is_write evs \<and> \<not> list_ex is_post evs
                 \<and> \<not> list_ex is_authorize evs))"


section \<open>Properties\<close>

lemmas defaults =
  DEFAULT_API_VERSION_def DEFAULT_DEVICE_NAME_def DEFAULT_HOST_def DEFAULT_HTTP_PORT_def
  DEFAULT_HTTPS_PORT_def DEFAULT_SSL_def DEFAULT_UNKNOWN_def

text \<open>
  C5. The fallback ladder on the four concrete cases: nothing given resolves to the
  default host on port 443 over TLS; host 10.0.0.1 alone resolves to that host on port
  80 over plain HTTP; port 80 alone resolves to the default host on port 80 over plain
  HTTP; host 10.0.0.1 with port 443 is kept as given, over TLS.
\<close>

theorem disc_set_host_and_port_cases:
  "disc_set_host_and_port PNone PNone = (PStr ''mafreebox.freebox.fr'', PStr ''443'', ''s'')
   \<and> disc_set_host_and_port (PStr ''10.0.0.1'') PNone = (PStr ''10.0.0.1'', PStr ''80'', '''')
   \<and> disc_set_host_and_port PNone (PStr ''80'') = (PStr ''mafreebox.freebox.fr'', PStr ''80'', '''')
   \<and> disc_set_host_and_port (PStr ''10.0.0.1'') (PStr ''443'')
       = (PStr ''10.0.0.1'', PStr ''443'', ''s'')"
  by (simp add: disc_set_host_and_port_def py_eq_def defaults)

subsection \<open>API version check\<close>

lemma int_of_PStr: "py_int s = Some n \<Longrightarrow> int_of ev (PStr s) = Inr n"
  by simp

text \<open>
  C4, as amended. When the part of the requested version after its first character
  reads as an integer \<open>n\<close>, the check returns normally, and it resets the version to
  \<open>v6\<close> with a warning exactly when the earlier two tests fail and the short version is
  lexicographically greater than the advertised major version or \<open>n < 1\<close>. The test for
  a new version (the server's major version is above 6 and is the requested one) and the
  test for a deprecated version (the short version is lexicographically below 6 and
  \<open>n > 0\<close>) come first and only warn. The request \<open>server\<close> stands for the advertised
  major version.
\<close>

theorem check_api_version_reset:
  assumes desc: "fbx_item st ''api_version'' = Inr (PStr v)"
    and server: "server = takeWhile (\<lambda>c. c \<noteq> CHR ''.'') v"
    and st1: "st1 = (if self_api_version st = ''server''
                     then st\<lparr>self_api_version := ''v'' @ server\<rparr> else st)"
    and short: "short = drop 1 (self_api_version st1)"
    and num: "py_int short = Some n"
  shows "check_api_version ev st =
         (Inr (),
          if str_lt ''6'' server \<and> short = server then
            emit (Log Warning (''Using new API version '' @ self_api_version st1
                               @ '', results may vary.'')) st1
          else if str_lt short ''6'' \<and> 0 < n then
            emit (Log Warning (''Using deprecated API version '' @ self_api_version st1
                               @ '', results may vary.'')) st1
          else if str_lt server short \<or> n < 1 then
            (emit (Log Warning (''Freebox server does not support this API version (''
                                @ self_api_version st1 @ ''), resetting to v6.'')) st1)
            \<lparr>self_api_version := ''v6''\<rparr>
          else st1)"
  using desc num
  unfolding check_api_version_def server st1 short
  by (simp add: Let_def DEFAULT_API_VERSION_def)

lemma versioned_item:
  "fbx_item (versioned r a) ''api_version'' = Inr (PStr a)"
  by (simp add: versioned_def fbx_item_def dict_item_def dict_get_def)

lemma versioned_api_version: "self_api_version (versioned r a) = r"
  by (simp add: versioned_def init_client_def)

lemma py_int_9: "py_int ''9'' = Some 9"
  by (simp add: py_int_def strip_ws_def is_space_def unsigned_int_def digits_val_def
      is_digit_def)

text \<open>Version 9 asked of an appliance at 8.0 is reset to \<open>v6\<close>.\<close>

theorem check_api_version_reset_witness:
  "py_int ''9'' = Some 9
   \<and> check_api_version (demo_env []) (versioned ''v9'' ''8.0'') =
       (Inr (),
        (emit (Log Warning
           ''Freebox server does not support this API version (v9), resetting to v6.'')
           (versioned ''v9'' ''8.0''))\<lparr>self_api_version := ''v6''\<rparr>)"
proof -
  have "check_api_version (demo_env []) (versioned ''v9'' ''8.0'') =
       (Inr (),
        (emit (Log Warning
           ''Freebox server does not support this API version (v9), resetting to v6.'')
           (versioned ''v9'' ''8.0''))\<lparr>self_api_version := ''v6''\<rparr>)"
    using check_api_version_reset [of "versioned ''v9'' ''8.0''" "''8.0''" "''8''"
        "versioned ''v9'' ''8.0''" "''9''" 9 "demo_env []"]
    by (simp add: versioned_item versioned_api_version py_int_9)
  then show ?thesis by (simp add: py_int_9)
qed

text \<open>
  C4 as stated fails. Version 5 asked of an appliance at 4.0 is lexicographically
  greater than the advertised 4, yet the check only warns of a deprecated version and
  keeps \<open>v5\<close>. Version 6 asked of an appliance at 8.0 passes without any warning. And the
  request \<open>v\<close>, whose short version is empty, makes \<open>int\<close> raise \<open>ValueError\<close>.
\<close>

theorem check_api_version_counterexample:
  "str_lt ''4'' ''5''
   \<and> check_api_version (demo_env []) (versioned ''v5'' ''4.0'')
       = (Inr (), emit (Log Warning ''Using deprecated API version v5, results may vary.'')
                    (versioned ''v5'' ''4.0''))
   \<and> check_api_version (demo_env []) (versioned ''v6'' ''8.0'') = (Inr (), versioned ''v6'' ''8.0'')
   \<and> fst (check_api_version (demo_env []) (versioned ''v'' ''8.0''))
       = Inl (ValueError (Some (Scalar (PStr ''invalid literal for int() with base 10''))))"
  by (simp add: check_api_version_def versioned_def init_client_def fbx_item_def dict_item_def
      dict_get_def Let_def DEFAULT_API_VERSION_def py_int_def strip_ws_def is_space_def
      unsigned_int_def digits_val_def is_digit_def demo_env_def emit_def)

subsection \<open>The state that an event leaves alone\<close>

lemma emit_simps [simp]:
  "trace (emit e st) = trace st @ [e]"
  "files (emit e st) = files st"
  "self_session (emit e st) = self_session st"
  "self_fbx_desc (emit e st) = self_fbx_desc st"
  "self_app_desc (emit e st) = self_app_desc st"
  "self_token_file (emit e st) = self_token_file st"
  "self_api_version (emit e st) = self_api_version st"
  "self_access (emit e st) = self_access st"
  by (simp_all add: emit_def)

lemma require_session_emit [simp]: "require_session (emit e st) = require_session st"
  by (simp add: require_session_def)

subsection \<open>The polling loop, one status at a time\<close>

lemma loop_no_session:
  "require_session st = Some e \<Longrightarrow> authorization_loop b t (s # sts) flag st = (Raise e, st)"
  by (simp add: get_authorization_status_def)

lemma loop_denied:
  "require_session st = None \<Longrightarrow>
   authorization_loop b t (''denied'' # sts) flag st =
     (Raise (AuthorizationError ''The app token is invalid or has been revoked.''),
      emit (Http_get (Urljoin b (''login/authorize/'' @ py_str t))) st)"
  by (simp add: get_authorization_status_def)

lemma loop_timeout:
  "require_session st = None \<Longrightarrow>
   authorization_loop b t (''timeout'' # sts) flag st =
     (Raise (AuthorizationError ''Authorization timed out.''),
      emit (Http_get (Urljoin b (''login/authorize/'' @ py_str t))) st)"
  by (simp add: get_authorization_status_def)

lemma loop_granted:
  "require_session st = None \<Longrightarrow>
   authorization_loop b t (''granted'' # sts) flag st =
     (Done (), emit (Http_get (Urljoin b (''login/authorize/'' @ py_str t))) st)"
  by (simp add: get_authorization_status_def)

lemma loop_pending:
  "require_session st = None \<Longrightarrow>
   authorization_loop b t (''pending'' # sts) flag st =
     authorization_loop b t sts True
       (emit (Sleep_ms 1000)
          (if flag then emit (Http_get (Urljoin b (''login/authorize/'' @ py_str t))) st
           else emit (Print ''Please confirm the authentification on the freebox.'')
                  (emit (Http_get (Urljoin b (''login/authorize/'' @ py_str t))) st)))"
  by (simp add: get_authorization_status_def Let_def)

lemma loop_other:
  "require_session st = None \<Longrightarrow> \<not> terminal s \<Longrightarrow> s \<noteq> ''pending'' \<Longrightarrow>
   authorization_loop b t (s # sts) flag st =
     authorization_loop b t sts flag
       (emit (Http_get (Urljoin b (''login/authorize/'' @ py_str t))) st)"
  by (simp add: get_authorization_status_def terminal_def)

lemma authorization_loop_frame:
  "authorization_loop b t sts flag st = (r, st') \<Longrightarrow>
     files st' = files st \<and> self_session st' = self_session st
     \<and> (\<exists>evs. trace st' = trace st @ evs \<and> \<not> list_ex is_write evs \<and> \<not> list_ex is_post evs)"
proof (induction sts arbitrary: flag st)
  case Nil
  then show ?case by simp
next
  case (Cons s sts)
  show ?case
  proof (cases "require_session st")
    case (Some e)
    with Cons.prems show ?thesis
      by (simp add: loop_no_session del: authorization_loop.simps)
  next
    case None
    consider (den) "s = ''denied''" | (pen) "s = ''pending''" | (tmo) "s = ''timeout''"
      | (gra) "s = ''granted''" | (oth) "\<not> terminal s" "s \<noteq> ''pending''"
      unfolding terminal_def by blast
    then show ?thesis
    proof cases
      case den
      with Cons.prems None show ?thesis
        by (auto simp add: loop_denied simp del: authorization_loop.simps)
    next
      case pen
      from Cons.prems show ?thesis
        unfolding pen loop_pending[OF None]
        by (auto dest!: Cons.IH split: if_splits)
    next
      case tmo
      with Cons.prems None show ?thesis
        by (auto simp add: loop_timeout simp del: authorization_loop.simps)
    next
      case gra
      with Cons.prems None show ?thesis
        by (auto simp add: loop_granted simp del: authorization_loop.simps)
    next
      case oth
      from Cons.prems show ?thesis
        unfolding loop_other[OF None oth]
        by (auto dest!: Cons.IH)
    qed
  qed
qed

lemma loop_nonterminal_prefix:
  "require_session st = None \<Longrightarrow> \<forall>s\<in>set pre. \<not> terminal s \<Longrightarrow>
   \<exists>flag' st1. authorization_loop b t (pre @ rest) flag st = authorization_loop b t rest flag' st1
       \<and> require_session st1 = None"
proof (induction pre arbitrary: flag st)
  case Nil
  then show ?case by auto
next
  case (Cons s pre)
  then have nt: "\<not> terminal s" and rest: "\<forall>s\<in>set pre. \<not> terminal s" by auto
  show ?case
  proof (cases "s = ''pending''")
    case True
    let ?st3 = "emit (Sleep_ms 1000)
          (if flag then emit (Http_get (Urljoin b (''login/authorize/'' @ py_str t))) st
           else emit (Print ''Please confirm the authentification on the freebox.'')
                  (emit (Http_get (Urljoin b (''login/authorize/'' @ py_str t))) st))"
    have "require_session ?st3 = None" using Cons.prems(1) by simp
    from Cons.IH[OF this rest, of True] show ?thesis
      unfolding True append_Cons loop_pending[OF Cons.prems(1)] by blast
  next
    case False
    let ?g = "emit (Http_get (Urljoin b (''login/authorize/'' @ py_str t))) st"
    have "require_session ?g = None" using Cons.prems(1) by simp
    from Cons.IH[OF this rest, of flag] show ?thesis
      unfolding append_Cons loop_other[OF Cons.prems(1) nt False] by blast
  qed
qed

subsection \<open>Pairing inside \<open>_get_app_access\<close>\<close>

lemma readfile_emit [simp]: "readfile_app_token f (emit e st) = readfile_app_token f st"
  by (simp add: readfile_app_token_def)

lemma get_base_url_session:
  "get_base_url host port v st = Inr b \<Longrightarrow> require_session st = None"
  by (auto simp add: get_base_url_def require_session_def split: option.splits if_splits)

lemma events_since_append [simp]: "trace st' = trace st @ evs \<Longrightarrow> events_since st st' = evs"
  by (simp add: events_since_def)

lemma writefile_simps [simp]:
  "files (writefile_app_token a t d f st) =
     (files st)(f \<mapsto> Json_object (dict_set ''track_id'' t (dict_set ''app_token'' a d)))"
  "trace (writefile_app_token a t d f st) = trace st @ [File_write f]"
  "self_session (writefile_app_token a t d f st) = self_session st"
  by (simp_all add: writefile_app_token_def Let_def)

lemma make_access_state [simp]: "snd (make_access b a d st) = st"
  by (simp add: make_access_def split: option.splits)

lemma get_app_token_ok:
  assumes "require_session st = None"
    and "success (post_authorize ev b d) = Some ok" and "truthy ok"
    and "result (post_authorize ev b d) = Some res"
    and "dict_get res ''app_token'' = Some app_token"
    and "dict_get res ''track_id'' = Some track_id"
  shows "get_app_token ev b d st =
           (Inr (app_token, track_id), emit (Http_post (Urljoin b ''login/authorize/'') d) st)"
  using assms by (simp add: get_app_token_def Let_def)

lemma get_app_access_pairing:
  assumes base: "get_base_url host port (Some api_version) st = Inr base_url"
    and read: "readfile_app_token token_file st = Inr (tok, tr, fdesc)"
    and pair: "tok = PNone \<or> (case fdesc of None \<Rightarrow> True | Some d \<Rightarrow> \<not> dict_eq d app_desc)"
    and ok: "success (post_authorize ev base_url app_desc) = Some ok" "truthy ok"
    and res: "result (post_authorize ev base_url app_desc) = Some res"
      "dict_get res ''app_token'' = Some app_token" "dict_get res ''track_id'' = Some track_id"
  shows "get_app_access ev host port api_version token_file app_desc st =
     (case authorization_loop base_url track_id (statuses ev) False
             (emit (Http_post (Urljoin base_url ''login/authorize/'') app_desc)
                (emit (Log Warning ''No valid authorization file found, requesting authorization.'')
                   (emit (Log Debug ''Reading application authorization file.'') st))) of
        (Raise e, st4) \<Rightarrow> (Raise e, st4)
      | (Polling, st4) \<Rightarrow> (Polling, st4)
      | (Done u, st4) \<Rightarrow>
          make_access base_url app_token app_desc
            (emit (Log Info (''Application token file was generated: '' @ token_file @ ''.''))
               (writefile_app_token app_token track_id app_desc token_file
                  (emit (Log Info ''Application authorization granted.'') st4))))"
proof -
  have sess: "require_session st = None" using base by (rule get_base_url_session)
  have tok: "get_app_token ev base_url app_desc
               (emit (Log Warning ''No valid authorization file found, requesting authorization.'')
                  (emit (Log Debug ''Reading application authorization file.'') st)) =
             (Inr (app_token, track_id),
              emit (Http_post (Urljoin base_url ''login/authorize/'') app_desc)
                (emit (Log Warning ''No valid authorization file found, requesting authorization.'')
                   (emit (Log Debug ''Reading application authorization file.'') st)))"
    by (rule get_app_token_ok) (use sess ok res in simp_all)
  show ?thesis
    unfolding get_app_access_def
    using pair by (simp only: base read tok Let_def sum.case prod.case readfile_emit if_True)
qed

lemma loop_ends_denied:
  assumes "require_session st = None" and "\<forall>s\<in>set pre. \<not> terminal s"
  shows "fst (authorization_loop b t (pre @ [''denied'']) flag st) =
           Raise (AuthorizationError ''The app token is invalid or has been revoked.'')"
proof -
  from loop_nonterminal_prefix[OF assms, of b t "[''denied'']" flag]
  obtain flag' st1 where
    "authorization_loop b t (pre @ [''denied'']) flag st = authorization_loop b t [''denied''] flag' st1"
    and "require_session st1 = None" by blast
  then show ?thesis by (simp only: loop_denied fst_conv)
qed

lemma loop_ends_timeout:
  assumes "require_session st = None" and "\<forall>s\<in>set pre. \<not> terminal s"
  shows "fst (authorization_loop b t (pre @ [''timeout'']) flag st) =
           Raise (AuthorizationError ''Authorization timed out.'')"
proof -
  from loop_nonterminal_prefix[OF assms, of b t "[''timeout'']" flag]
  obtain flag' st1 where
    "authorization_loop b t (pre @ [''timeout'']) flag st = authorization_loop b t [''timeout''] flag' st1"
    and "require_session st1 = None" by blast
  then show ?thesis by (simp only: loop_timeout fst_conv)
qed

lemma pairing_raises:
  assumes base: "get_base_url host port (Some api_version) st = Inr base_url"
    and read: "readfile_app_token token_file st = Inr (tok, tr, fdesc)"
    and pair: "tok = PNone \<or> (case fdesc of None \<Rightarrow> True | Some d \<Rightarrow> \<not> dict_eq d app_desc)"
    and ok: "success (post_authorize ev base_url app_desc) = Some ok" "truthy ok"
    and res: "result (post_authorize ev base_url app_desc) = Some res"
      "dict_get res ''app_token'' = Some app_token" "dict_get res ''track_id'' = Some track_id"
    and run: "get_app_access ev host port api_version token_file app_desc st = (r, st')"
    and loop: "\<And>st3. require_session st3 = None \<Longrightarrow>
                 fst (authorization_loop base_url track_id (statuses ev) False st3) = Raise e"
  shows "r = Raise e \<and> files st' = files st \<and> \<not> list_ex is_write (events_since st st')"
proof -
  let ?st3 = "emit (Http_post (Urljoin base_url ''login/authorize/'') app_desc)
                (emit (Log Warning ''No valid authorization file found, requesting authorization.'')
                   (emit (Log Debug ''Reading application authorization file.'') st))"
  have sess: "require_session ?st3 = None"
    using get_base_url_session[OF base] by simp
  obtain r4 st4 where l: "authorization_loop base_url track_id (statuses ev) False ?st3 = (r4, st4)"
    by (cases "authorization_loop base_url track_id (statuses ev) False ?st3")
  have r4: "r4 = Raise e" using loop[OF sess] l by simp
  from authorization_loop_frame[OF l] obtain evs where
    f: "files st4 = files ?st3" and tr: "trace st4 = trace ?st3 @ evs"
    and nw: "\<not> list_ex is_write evs" by blast
  have "get_app_access ev host port api_version token_file app_desc st = (Raise e, st4)"
    unfolding get_app_access_pairing[OF base read pair ok res] l r4 by simp
  with run have r: "r = Raise e" and st': "st' = st4" by simp_all
  have "trace st' = trace st @ ([Log Debug ''Reading application authorization file.'',
          Log Warning ''No valid authorization file found, requesting authorization.'',
          Http_post (Urljoin base_url ''login/authorize/'') app_desc] @ evs)"
    unfolding st' tr by simp
  then have "events_since st st' = [Log Debug ''Reading application authorization file.'',
          Log Warning ''No valid authorization file found, requesting authorization.'',
          Http_post (Urljoin base_url ''login/authorize/'') app_desc] @ evs"
    by (rule events_since_append)
  with nw have "\<not> list_ex is_write (events_since st st')" by simp
  moreover have "files st' = files st" unfolding st' f by simp
  ultimately show ?thesis using r by simp
qed

text \<open>
  C2. A pairing run is \<open>_get_app_access\<close> on a client whose file has no token or
  another descriptor, with an appliance that accepts the authorization request. When
  the statuses are pending, pending, granted, the run returns the access object,
  prints one prompt and sleeps one second twice. When the statuses end in denied after
  statuses that do not end the loop, the run raises \<open>AuthorizationError\<close> with the
  message of a denied authorization; when they end in timeout, it raises
  \<open>AuthorizationError\<close> with the message of a timed out one. In both cases the files
  are as before and the trace has no write. The code has one exception class for both
  kinds; the message tells them apart.
\<close>

theorem pairing_terminal_states:
  assumes base: "get_base_url host port (Some api_version) st = Inr base_url"
    and read: "readfile_app_token token_file st = Inr (tok, tr, fdesc)"
    and pair: "tok = PNone \<or> (case fdesc of None \<Rightarrow> True | Some d \<Rightarrow> \<not> dict_eq d app_desc)"
    and ok: "success (post_authorize ev base_url app_desc) = Some ok" "truthy ok"
    and res: "result (post_authorize ev base_url app_desc) = Some res"
      "dict_get res ''app_token'' = Some app_token" "dict_get res ''track_id'' = Some track_id"
    and app_id: "dict_get app_desc ''app_id'' = Some i"
    and run: "get_app_access ev host port api_version token_file app_desc st = (r, st')"
  shows "(statuses ev = [''pending'', ''pending'', ''granted''] \<longrightarrow>
            r = Done \<lparr>acc_base_url = base_url, acc_app_token = app_token, acc_app_id = i\<rparr>
            \<and> length (filter is_print (events_since st st')) = 1
            \<and> filter is_sleep (events_since st st') = [Sleep_ms 1000, Sleep_ms 1000])
       \<and> (\<forall>pre. statuses ev = pre @ [''denied''] \<and> (\<forall>s\<in>set pre. \<not> terminal s) \<longrightarrow>
            r = Raise (AuthorizationError ''The app token is invalid or has been revoked.'')
            \<and> files st' = files st \<and> \<not> list_ex is_write (events_since st st'))
       \<and> (\<forall>pre. statuses ev = pre @ [''timeout''] \<and> (\<forall>s\<in>set pre. \<not> terminal s) \<longrightarrow>
            r = Raise (AuthorizationError ''Authorization timed out.'')
            \<and> files st' = files st \<and> \<not> list_ex is_write (events_since st st'))"
proof (intro conjI impI allI)
  assume sts: "statuses ev = [''pending'', ''pending'', ''granted'']"
  let ?st3 = "emit (Http_post (Urljoin base_url ''login/authorize/'') app_desc)
                (emit (Log Warning ''No valid authorization file found, requesting authorization.'')
                   (emit (Log Debug ''Reading application authorization file.'') st))"
  let ?get = "Http_get (Urljoin base_url (''login/authorize/'' @ py_str track_id))"
  let ?st4 = "emit ?get (emit (Sleep_ms 1000) (emit ?get (emit (Sleep_ms 1000)
                (emit (Print ''Please confirm the authentification on the freebox.'')
                   (emit ?get ?st3)))))"
  have sess: "require_session ?st3 = None"
    using get_base_url_session[OF base] by simp
  have l: "authorization_loop base_url track_id (statuses ev) False ?st3 = (Done (), ?st4)"
    unfolding sts using sess
    by (simp add: loop_pending loop_granted del: authorization_loop.simps)
  have "get_app_access ev host port api_version token_file app_desc st =
          make_access base_url app_token app_desc
            (emit (Log Info (''Application token file was generated: '' @ token_file @ ''.''))
               (writefile_app_token app_token track_id app_desc token_file
                  (emit (Log Info ''Application authorization granted.'') ?st4)))"
    unfolding get_app_access_pairing[OF base read pair ok res] l by simp
  with run have r: "r = Done \<lparr>acc_base_url = base_url, acc_app_token = app_token, acc_app_id = i\<rparr>"
    and st': "st' = emit (Log Info (''Application token file was generated: '' @ token_file @ ''.''))
               (writefile_app_token app_token track_id app_desc token_file
                  (emit (Log Info ''Application authorization granted.'') ?st4))"
    using app_id by (simp_all add: make_access_def)
  have "trace st' = trace st @
          [Log Debug ''Reading application authorization file.'',
           Log Warning ''No valid authorization file found, requesting authorization.'',
           Http_post (Urljoin base_url ''login/authorize/'') app_desc,
           ?get, Print ''Please confirm the authentification on the freebox.'', Sleep_ms 1000,
           ?get, Sleep_ms 1000, ?get,
           Log Info ''Application authorization granted.'', File_write token_file,
           Log Info (''Application token file was generated: '' @ token_file @ ''.'')]"
    unfolding st' by simp
  then have ev: "events_since st st' =
          [Log Debug ''Reading application authorization file.'',
           Log Warning ''No valid authorization file found, requesting authorization.'',
           Http_post (Urljoin base_url ''login/authorize/'') app_desc,
           ?get, Print ''Please confirm the authentification on the freebox.'', Sleep_ms 1000,
           ?get, Sleep_ms 1000, ?get,
           Log Info ''Application authorization granted.'', File_write token_file,
           Log Info (''Application token file was generated: '' @ token_file @ ''.'')]"
    by (rule events_since_append)
  show "r = Done \<lparr>acc_base_url = base_url, acc_app_token = app_token, acc_app_id = i\<rparr>"
    by (rule r)
  show "length (filter is_print (events_since st st')) = 1"
    unfolding ev by simp
  show "filter is_sleep (events_since st st') = [Sleep_ms 1000, Sleep_ms 1000]"
    unfolding ev by simp
next
  fix pre
  assume a: "statuses ev = pre @ [''denied''] \<and> (\<forall>s\<in>set pre. \<not> terminal s)"
  have "r = Raise (AuthorizationError ''The app token is invalid or has been revoked.'')
        \<and> files st' = files st \<and> \<not> list_ex is_write (events_since st st')"
    by (rule pairing_raises[OF base read pair ok res run]) (use a in \<open>simp add: loop_ends_denied\<close>)
  then show "r = Raise (AuthorizationError ''The app token is invalid or has been revoked.'')"
    and "files st' = files st" and "\<not> list_ex is_write (events_since st st')" by simp_all
next
  fix pre
  assume a: "statuses ev = pre @ [''timeout''] \<and> (\<forall>s\<in>set pre. \<not> terminal s)"
  have "r = Raise (AuthorizationError ''Authorization timed out.'')
        \<and> files st' = files st \<and> \<not> list_ex is_write (events_since st st')"
    by (rule pairing_raises[OF base read pair ok res run]) (use a in \<open>simp add: loop_ends_timeout\<close>)
  then show "r = Raise (AuthorizationError ''Authorization timed out.'')"
    and "files st' = files st" and "\<not> list_ex is_write (events_since st st')" by simp_all
qed

lemma demo_base_url:
  "get_base_url (PStr ''abcd.fbxos.fr'') (PStr ''16129'') (Some ''v6'') demo_client
     = Inr ''https://abcd.fbxos.fr:16129/api/v6/''"
  by (simp add: get_base_url_def demo_client_def init_client_def demo_fbx_desc_def dict_get_def)

lemma demo_read_none: "readfile_app_token ''app_auth'' demo_client = Inr (PNone, PNone, None)"
  by (simp add: readfile_app_token_def demo_client_def init_client_def)

lemma demo_env_fields:
  "success (post_authorize (demo_env sts) b d) = Some (PBool True)"
  "result (post_authorize (demo_env sts) b d)
     = Some [(''app_token'', PStr ''tok''), (''track_id'', PInt 42)]"
  "statuses (demo_env sts) = sts"
  by (simp_all add: demo_env_def)

lemma demo_app_id: "dict_get demo_desc ''app_id'' = Some (PStr ''aiofpbx'')"
  by (simp add: demo_desc_def dict_get_def)

lemma not_terminal_samples: "\<not> terminal ''pending''" "\<not> terminal ''unknown''"
  by (simp_all add: terminal_def)

text \<open>
  The demo client has no credential file; the demo appliance grants after two pending
  statuses, denies after an unknown and a pending one, or times out after a pending one.
\<close>

theorem pairing_terminal_states_witness:
  "fst (get_app_access (demo_env [''pending'', ''pending'', ''granted''])
          (PStr ''abcd.fbxos.fr'') (PStr ''16129'') ''v6'' ''app_auth'' demo_desc demo_client)
     = Done \<lparr>acc_base_url = ''https://abcd.fbxos.fr:16129/api/v6/'', acc_app_token = PStr ''tok'',
             acc_app_id = PStr ''aiofpbx''\<rparr>
   \<and> length (filter is_print (events_since demo_client
        (snd (get_app_access (demo_env [''pending'', ''pending'', ''granted''])
          (PStr ''abcd.fbxos.fr'') (PStr ''16129'') ''v6'' ''app_auth'' demo_desc demo_client)))) = 1
   \<and> filter is_sleep (events_since demo_client
        (snd (get_app_access (demo_env [''pending'', ''pending'', ''granted''])
          (PStr ''abcd.fbxos.fr'') (PStr ''16129'') ''v6'' ''app_auth'' demo_desc demo_client)))
       = [Sleep_ms 1000, Sleep_ms 1000]
   \<and> fst (get_app_access (demo_env [''unknown'', ''pending'', ''denied''])
          (PStr ''abcd.fbxos.fr'') (PStr ''16129'') ''v6'' ''app_auth'' demo_desc demo_client)
     = Raise (AuthorizationError ''The app token is invalid or has been revoked.'')
   \<and> files (snd (get_app_access (demo_env [''unknown'', ''pending'', ''denied''])
          (PStr ''abcd.fbxos.fr'') (PStr ''16129'') ''v6'' ''app_auth'' demo_desc demo_client))
     = files demo_client
   \<and> fst (get_app_access (demo_env [''pending'', ''timeout''])
          (PStr ''abcd.fbxos.fr'') (PStr ''16129'') ''v6'' ''app_auth'' demo_desc demo_client)
     = Raise (AuthorizationError ''Authorization timed out.'')
   \<and> files (snd (get_app_access (demo_env [''pending'', ''timeout''])
          (PStr ''abcd.fbxos.fr'') (PStr ''16129'') ''v6'' ''app_auth'' demo_desc demo_client))
     = files demo_client"
proof -
  have T: "\<And>sts.
     (statuses (demo_env sts) = [''pending'', ''pending'', ''granted''] \<longrightarrow>
        fst (get_app_access (demo_env sts) (PStr ''abcd.fbxos.fr'') (PStr ''16129'') ''v6''
               ''app_auth'' demo_desc demo_client)
          = Done \<lparr>acc_base_url = ''https://abcd.fbxos.fr:16129/api/v6/'',
                  acc_app_token = PStr ''tok'', acc_app_id = PStr ''aiofpbx''\<rparr>
        \<and> length (filter is_print (events_since demo_client
             (snd (get_app_access (demo_env sts) (PStr ''abcd.fbxos.fr'') (PStr ''16129'') ''v6''
               ''app_auth'' demo_desc demo_client)))) = 1
        \<and> filter is_sleep (events_since demo_client
             (snd (get_app_access (demo_env sts) (PStr ''abcd.fbxos.fr'') (PStr ''16129'') ''v6''
               ''app_auth'' demo_desc demo_client))) = [Sleep_ms 1000, Sleep_ms 1000])
     \<and> (\<forall>pre. statuses (demo_env sts) = pre @ [''denied''] \<and> (\<forall>s\<in>set pre. \<not> terminal s) \<longrightarrow>
          fst (get_app_access (demo_env sts) (PStr ''abcd.fbxos.fr'') (PStr ''16129'') ''v6''
               ''app_auth'' demo_desc demo_client)
            = Raise (AuthorizationError ''The app token is invalid or has been revoked.'')
          \<and> files (snd (get_app_access (demo_env sts) (PStr ''abcd.fbxos.fr'') (PStr ''16129'')
               ''v6'' ''app_auth'' demo_desc demo_client)) = files demo_client
          \<and> \<not> list_ex is_write (events_since demo_client
               (snd (get_app_access (demo_env sts) (PStr ''abcd.fbxos.fr'') (PStr ''16129'')
                  ''v6'' ''app_auth'' demo_desc demo_client))))
     \<and> (\<forall>pre. statuses (demo_env sts) = pre @ [''timeout''] \<and> (\<forall>s\<in>set pre. \<not> terminal s) \<longrightarrow>
          fst (get_app_access (demo_env sts) (PStr ''abcd.fbxos.fr'') (PStr ''16129'') ''v6''
               ''app_auth'' demo_desc demo_client)
            = Raise (AuthorizationError ''Authorization timed out.'')
          \<and> files (snd (get_app_access (demo_env sts) (PStr ''abcd.fbxos.fr'') (PStr ''16129'')
               ''v6'' ''app_auth'' demo_desc demo_client)) = files demo_client
          \<and> \<not> list_ex is_write (events_since demo_client
               (snd (get_app_access (demo_env sts) (PStr ''abcd.fbxos.fr'') (PStr ''16129'')
                  ''v6'' ''app_auth'' demo_desc demo_client))))"
    by (rule pairing_terminal_states[OF demo_base_url demo_read_none _ demo_env_fields(1) _
          demo_env_fields(2) _ _ demo_app_id]) (simp_all add: dict_get_def)
  have granted: "statuses (demo_env [''pending'', ''pending'', ''granted''])
                   = [''pending'', ''pending'', ''granted'']"
    by (rule demo_env_fields(3))
  have denied: "statuses (demo_env [''unknown'', ''pending'', ''denied''])
                  = [''unknown'', ''pending''] @ [''denied'']
                \<and> (\<forall>s\<in>set [''unknown'', ''pending'']. \<not> terminal s)"
    by (simp add: demo_env_fields(3) terminal_def)
  have timeout: "statuses (demo_env [''pending'', ''timeout'']) = [''pending''] @ [''timeout'']
                \<and> (\<forall>s\<in>set [''pending'']. \<not> terminal s)"
    by (simp add: demo_env_fields(3) terminal_def)
  from T[of "[''pending'', ''pending'', ''granted'']", THEN conjunct1, rule_format, OF granted]
    T[of "[''unknown'', ''pending'', ''denied'']", THEN conjunct2, THEN conjunct1, rule_format, OF denied]
    T[of "[''pending'', ''timeout'']", THEN conjunct2, THEN conjunct2, rule_format, OF timeout]
  show ?thesis by blast
qed

subsection \<open>Waits and statuses that the loop does not name\<close>



lemma demo_session: "require_session demo_client = None"
  by (simp add: require_session_def demo_client_def)


text \<open>
  C3 does not hold of the code. After the status unknown the loop does not stop: with
  three unknown statuses it has asked three times, without a wait, and is still polling.
\<close>

theorem authorization_loop_unknown_keeps_polling:
  "authorization_loop ''https://abcd.fbxos.fr:16129/api/v6/'' (PInt 42)
     [''unknown'', ''unknown'', ''unknown''] False demo_client
   = (Polling,
      emit (Http_get (Urljoin ''https://abcd.fbxos.fr:16129/api/v6/'' ''login/authorize/42''))
        (emit (Http_get (Urljoin ''https://abcd.fbxos.fr:16129/api/v6/'' ''login/authorize/42''))
           (emit (Http_get (Urljoin ''https://abcd.fbxos.fr:16129/api/v6/'' ''login/authorize/42''))
              demo_client)))"
  by (simp add: get_authorization_status_def demo_session int_str_def char_of_def bit_Suc_0_iff)

subsection \<open>Writing and reading the credential file\<close>

lemma dict_get_set: "dict_get (dict_set k v d) k' = (if k' = k then Some v else dict_get d k')"
  by (induction d) (auto simp add: dict_get_def)

lemma dict_get_Nil: "dict_get [] k = None"
  by (simp add: dict_get_def)

lemma dict_get_Cons: "dict_get ((k, v) # d) k' = (if k = k' then Some v else dict_get d k')"
  by (simp add: dict_get_def)

lemmas dict_get_list = dict_get_Nil dict_get_Cons

lemma py_eq_refl [simp]: "py_eq v v"
  by (cases v) (simp_all add: py_eq_def)

lemma dict_get_key: "k \<in> set (map fst d) \<Longrightarrow> \<exists>v. dict_get d k = Some v"
  unfolding dict_get_def by (cases "map_of d k") (auto simp add: map_of_eq_None_iff)

lemma dict_get_no_key: "k \<notin> set (map fst d) \<Longrightarrow> dict_get d k = None"
  unfolding dict_get_def by (simp add: map_of_eq_None_iff)

lemma map_filter_eq:
  "(\<And>x. x \<in> set xs \<Longrightarrow> f x = g x) \<Longrightarrow> List.map_filter f xs = List.map_filter g xs"
  by (induction xs) (auto simp add: List.map_filter_simps split: option.splits)

lemma written_identity:
  "k \<in> set IDENTITY_KEYS \<Longrightarrow>
   dict_get (dict_set ''track_id'' track_id (dict_set ''app_token'' app_token app_desc)) k
     = dict_get app_desc k"
  by (auto simp add: dict_get_set IDENTITY_KEYS_def)

lemma read_written:
  "readfile_app_token file (writefile_app_token app_token track_id app_desc file st) =
     Inr (app_token, track_id,
          Some (List.map_filter (\<lambda>k. map_option (Pair k) (dict_get app_desc k)) IDENTITY_KEYS))"
proof -
  let ?w = "dict_set ''track_id'' track_id (dict_set ''app_token'' app_token app_desc)"
  have f: "files (writefile_app_token app_token track_id app_desc file st) file
             = Some (Json_object ?w)"
    by simp
  have t: "dict_get ?w ''app_token'' = Some app_token" "dict_get ?w ''track_id'' = Some track_id"
    by (simp_all add: dict_get_set)
  have m: "List.map_filter (\<lambda>k. map_option (Pair k) (dict_get ?w k)) IDENTITY_KEYS
           = List.map_filter (\<lambda>k. map_option (Pair k) (dict_get app_desc k)) IDENTITY_KEYS"
    by (rule map_filter_eq) (simp add: written_identity)
  show ?thesis
    unfolding readfile_app_token_def f by (simp add: t m)
qed

text \<open>
  C8. For a descriptor whose keys are the four identity fields, reading the file that
  \<open>_writefile_app_token\<close> has written gives back the token and the track id that were
  written, and a descriptor that is equal to the written one as a Python dict and has
  the same value at each of the four fields. The JSON text in between is taken to keep
  scalars as they are.
\<close>

theorem write_read_roundtrip:
  assumes keys: "set (map fst app_desc) = set IDENTITY_KEYS"
  shows "\<exists>d. readfile_app_token file (writefile_app_token app_token track_id app_desc file st)
               = Inr (app_token, track_id, Some d)
             \<and> dict_eq d app_desc
             \<and> map (dict_get d) IDENTITY_KEYS = map (dict_get app_desc) IDENTITY_KEYS"
proof -
  from keys have k: "''app_id'' \<in> set (map fst app_desc)" "''app_name'' \<in> set (map fst app_desc)"
    "''app_version'' \<in> set (map fst app_desc)" "''device_name'' \<in> set (map fst app_desc)"
    by (simp_all add: IDENTITY_KEYS_def)
  from k[THEN dict_get_key] obtain v1 v2 v3 v4 where
    v: "dict_get app_desc ''app_id'' = Some v1" "dict_get app_desc ''app_name'' = Some v2"
       "dict_get app_desc ''app_version'' = Some v3" "dict_get app_desc ''device_name'' = Some v4"
    by blast
  let ?d = "[(''app_id'', v1), (''app_name'', v2), (''app_version'', v3), (''device_name'', v4)]"
  have d: "List.map_filter (\<lambda>k. map_option (Pair k) (dict_get app_desc k)) IDENTITY_KEYS = ?d"
    by (simp add: IDENTITY_KEYS_def List.map_filter_simps v)
  have le1: "dict_le ?d app_desc"
    by (simp add: dict_le_def v dict_get_list)
  have "\<And>k. k \<in> set (map fst app_desc) \<Longrightarrow>
          (case dict_get app_desc k of None \<Rightarrow> True
           | Some x \<Rightarrow> (case dict_get ?d k of None \<Rightarrow> False | Some y \<Rightarrow> py_eq x y))"
  proof -
    fix k assume "k \<in> set (map fst app_desc)"
    then have "k \<in> set IDENTITY_KEYS" using keys by simp
    then consider "k = ''app_id''" | "k = ''app_name''" | "k = ''app_version''" | "k = ''device_name''"
      by (auto simp add: IDENTITY_KEYS_def)
    then show "(case dict_get app_desc k of None \<Rightarrow> True
           | Some x \<Rightarrow> (case dict_get ?d k of None \<Rightarrow> False | Some y \<Rightarrow> py_eq x y))"
      by cases (simp_all add: v dict_get_list)
  qed
  then have le2: "dict_le app_desc ?d"
    unfolding dict_le_def list_all_iff by blast
  have m: "map (dict_get ?d) IDENTITY_KEYS = map (dict_get app_desc) IDENTITY_KEYS"
    by (simp add: IDENTITY_KEYS_def v dict_get_list)
  show ?thesis
    unfolding read_written d using le1 le2 m by (simp add: dict_eq_def)
qed

text \<open>The round trip at the demo descriptor.\<close>

theorem write_read_roundtrip_witness:
  "set (map fst demo_desc) = set IDENTITY_KEYS
   \<and> (\<exists>d. readfile_app_token ''app_auth''
             (writefile_app_token (PStr ''tok'') (PStr ''7'') demo_desc ''app_auth'' demo_client)
               = Inr (PStr ''tok'', PStr ''7'', Some d)
          \<and> dict_eq d demo_desc
          \<and> map (dict_get d) IDENTITY_KEYS = map (dict_get demo_desc) IDENTITY_KEYS)"
proof -
  have k: "set (map fst demo_desc) = set IDENTITY_KEYS"
    by (simp add: demo_desc_def IDENTITY_KEYS_def)
  from k write_read_roundtrip[OF k, of "''app_auth''" "PStr ''tok''" "PStr ''7''" demo_client]
  show ?thesis by blast
qed

subsection \<open>What discovery leaves alone\<close>

declare discover.simps [simp del] disc_check_session.simps [simp del]

lemma keeps_store_refl [simp]: "keeps_store st st"
  by (simp add: keeps_store_def)

lemma keeps_store_trans: "keeps_store a b \<Longrightarrow> keeps_store b c \<Longrightarrow> keeps_store a c"
  unfolding keeps_store_def by (elim conjE exE) (simp add: list_ex_append)

lemma keeps_store_emit:
  "\<not> is_write e \<Longrightarrow> \<not> is_post e \<Longrightarrow> \<not> is_authorize e \<Longrightarrow> keeps_store a b \<Longrightarrow>
   keeps_store a (emit e b)"
  unfolding keeps_store_def by (elim conjE exE) simp

lemma keeps_store_updates:
  "keeps_store a b \<Longrightarrow> keeps_store a (b\<lparr>self_fbx_desc := x\<rparr>)"
  "keeps_store a b \<Longrightarrow> keeps_store a (b\<lparr>self_session := y\<rparr>)"
  "keeps_store a b \<Longrightarrow> keeps_store a (b\<lparr>self_api_version := z\<rparr>)"
  "keeps_store a b \<Longrightarrow> keeps_store a (b\<lparr>self_fbx_url := u\<rparr>)"
  by (simp_all add: keeps_store_def)

lemmas keeps_intros = keeps_store_emit keeps_store_updates

lemma keeps_close: "keeps_store a b \<Longrightarrow> keeps_store a (disc_close_to_return b)"
  by (auto simp add: disc_close_to_return_def Let_def intro!: keeps_intros split: option.splits)

lemma keeps_connect:
  "disc_connect ev host port s st = (r, st') \<Longrightarrow> keeps_store a st \<Longrightarrow> keeps_store a st'"
  by (auto simp add: disc_connect_def Let_def intro!: keeps_intros keeps_close
      split: sum.splits connect_result.splits if_splits)

lemma keeps_pooled: "keeps_store a b \<Longrightarrow> keeps_store a (pooled k b)"
  by (auto simp add: pooled_def intro!: keeps_intros split: option.splits)

lemma keeps_request:
  "discover_request ev host port s st = (r, st') \<Longrightarrow> keeps_store a st \<Longrightarrow> keeps_store a st'"
  by (auto simp add: discover_request_def Let_def
      intro!: keeps_intros keeps_close keeps_pooled
      dest: keeps_connect
      split: sum.splits if_splits prod.splits get_reply.splits json_doc.splits option.splits)

lemma check_not_live:
  "\<not> has_live_session st \<Longrightarrow> disc_check_session ev h p s st = (Inr (h, p, s), st)"
  by (simp add: disc_check_session.simps)

lemma discover_not_live:
  "\<not> has_live_session st \<Longrightarrow> \<not> ipv6_network_ok ev host \<Longrightarrow>
   disc_set_host_and_port host port = (h, p, s) \<Longrightarrow>
   discover ev host port st = discover_request ev h p s st"
  by (simp add: discover.simps check_not_live)

lemma discover_ipv6:
  "ipv6_network_ok ev host \<Longrightarrow>
   discover ev host port st =
     (Inr (Scalar PNone),
      disc_close_to_return (emit (Log Error (py_str host @ '' : IPv6 is not supported'')) st))"
  by (simp add: discover.simps)

lemma keeps_discover_not_live:
  assumes "\<not> has_live_session st" and "discover ev host port st = (r, st')"
    and "keeps_store a st"
  shows "keeps_store a st'"
proof (cases "ipv6_network_ok ev host")
  case True
  with assms show ?thesis
    by (auto simp add: discover_ipv6 intro!: keeps_close keeps_intros)
next
  case False
  obtain h p s where "disc_set_host_and_port host port = (h, p, s)"
    by (cases "disc_set_host_and_port host port")
  from discover_not_live[OF assms(1) False this] assms(2)
  have "discover_request ev h p s st = (r, st')" by simp
  then show ?thesis using assms(3) by (rule keeps_request)
qed

lemma keeps_check:
  assumes "disc_check_session ev host port s st = (r, st')" and "keeps_store a st"
  shows "keeps_store a st'"
proof (cases "has_live_session st")
  case False
  with assms show ?thesis by (simp add: check_not_live)
next
  case True
  have inner: "keeps_store a st1"
    if d: "discover ev host port (disc_close_to_return st) = (r1, st1)" for r1 st1
    by (rule keeps_discover_not_live[OF has_live_session_closed d keeps_close[OF assms(2)]])
  from assms True show ?thesis
    by (auto simp add: disc_check_session.simps dest: inner
        split: list.splits sum.splits if_splits prod.splits)
qed

lemma keeps_discover:
  assumes "discover ev host port st = (r, st')" and "keeps_store a st"
  shows "keeps_store a st'"
proof (cases "ipv6_network_ok ev host")
  case True
  with assms show ?thesis
    by (auto simp add: discover_ipv6 intro!: keeps_close keeps_intros)
next
  case False
  with assms show ?thesis
    by (auto simp add: discover.simps dest: keeps_check keeps_request
        split: prod.splits sum.splits if_splits)
qed

lemma keeps_check_api_version:
  "check_api_version ev st = (r, st') \<Longrightarrow> keeps_store a st \<Longrightarrow> keeps_store a st'"
  by (auto simp add: check_api_version_def Let_def intro!: keeps_intros
      split: sum.splits pyval.splits if_splits)

lemma keeps_open_init:
  assumes "open_init ev host port st = (r, st')" and "keeps_store a st"
  shows "keeps_store a st'"
  using assms
  by (auto simp add: open_init_def intro!: keeps_intros
      dest!: keeps_discover keeps_check_api_version
      split: prod.splits sum.splits if_splits)

subsection \<open>Opening with a stored credential\<close>

lemma readfile_files: "files st1 = files st \<Longrightarrow> readfile_app_token f st1 = readfile_app_token f st"
  by (simp add: readfile_app_token_def)

lemma keeps_events:
  "keeps_store st st' \<Longrightarrow>
     files st' = files st \<and> \<not> list_ex is_write (events_since st st')
     \<and> \<not> list_ex is_post (events_since st st')
     \<and> \<not> list_ex is_authorize (events_since st st')"
  unfolding keeps_store_def by (elim conjE exE) simp

lemma get_app_access_stored:
  assumes "readfile_app_token token_file st = Inr (tok, tr, Some d)"
    and "tok \<noteq> PNone" and "dict_eq d app_desc"
  shows "get_app_access ev host port api_version token_file app_desc st =
           (case get_base_url host port (Some api_version) st of
              Inl e \<Rightarrow> (Raise e, st)
            | Inr base_url \<Rightarrow>
                make_access base_url tok app_desc
                  (emit (Log Debug ''Reading application authorization file.'') st))"
  using assms by (simp add: get_app_access_def Let_def split: sum.splits)

lemma keeps_get_app_access_stored:
  assumes "readfile_app_token token_file st = Inr (tok, tr, Some d)"
    and "tok \<noteq> PNone" and "dict_eq d app_desc"
    and run: "get_app_access ev host port api_version token_file app_desc st = (r, st')"
    and k: "keeps_store a st"
  shows "keeps_store a st'"
proof (cases "get_base_url host port (Some api_version) st")
  case (Inl e)
  with run k show ?thesis
    unfolding get_app_access_stored[OF assms(1-3)] by simp
next
  case (Inr b)
  with run have "st' = snd (make_access b tok app_desc
                   (emit (Log Debug ''Reading application authorization file.'') st))"
    unfolding get_app_access_stored[OF assms(1-3)] by (simp add: snd_def)
  then show ?thesis using k by (simp add: keeps_store_emit)
qed

lemma open_fbx_stored_quiet:
  assumes read: "readfile_app_token (self_token_file st) st = Inr (tok, tr, Some d)"
    and tok: "tok \<noteq> PNone" and same: "dict_eq d (self_app_desc st)"
    and run: "open_fbx ev host port st = (r, st')"
  shows "files st' = files st \<and> \<not> list_ex is_write (events_since st st')
         \<and> \<not> list_ex is_post (events_since st st')
         \<and> \<not> list_ex is_authorize (events_since st st')"
proof -
  have "\<exists>st2. keeps_store st st2 \<and> files st' = files st2 \<and> trace st' = trace st2"
  proof (cases "is_app_desc_valid (self_app_desc st)")
    case False
    with run have "st' = st" by (simp add: open_fbx_def)
    then show ?thesis by (intro exI[of _ st]) simp
  next
    case True
    obtain ri st1 where oi: "open_init ev host port st = (ri, st1)"
      by (cases "open_init ev host port st")
    have k1: "keeps_store st st1" by (rule keeps_open_init[OF oi keeps_store_refl])
    show ?thesis
    proof (cases ri)
      case (Inl e)
      with run True oi have "st' = st1" by (simp add: open_fbx_def)
      with k1 show ?thesis by (intro exI[of _ st1]) simp
    next
      case (Inr hp)
      obtain h p where hp: "hp = (h, p)" by (cases hp)
      obtain ra st2 where ga: "get_app_access ev h p (self_api_version st1) (self_token_file st1)
                                 (self_app_desc st1) st1 = (ra, st2)"
        by (cases "get_app_access ev h p (self_api_version st1) (self_token_file st1)
                     (self_app_desc st1) st1")
      from k1 have eqs: "files st1 = files st" "self_token_file st1 = self_token_file st"
        "self_app_desc st1 = self_app_desc st" by (simp_all add: keeps_store_def)
      have read1: "readfile_app_token (self_token_file st1) st1 = Inr (tok, tr, Some d)"
        using read readfile_files[OF eqs(1), of "self_token_file st"] eqs(2) by simp
      have same1: "dict_eq d (self_app_desc st1)" using same eqs by simp
      have k2: "keeps_store st st2"
        by (rule keeps_get_app_access_stored[OF read1 tok same1 ga k1])
      from run True oi Inr hp ga have "files st' = files st2 \<and> trace st' = trace st2"
        by (auto simp add: open_fbx_def split: outcome.splits)
      with k2 show ?thesis by (intro exI[of _ st2]) simp
    qed
  qed
  then obtain st2 where k: "keeps_store st st2" and f: "files st' = files st2"
    and t: "trace st' = trace st2" by blast
  from keeps_events[OF k] f t show ?thesis by (simp add: events_since_def)
qed

text \<open>
  C10. When the credential file can be read, its token is not \<open>None\<close> and its
  identity fields equal the client's descriptor, \<open>open\<close> leaves every file as it was
  and its trace has no file write, however the run ends. Put the other way round, a run
  of \<open>open\<close> that writes the file had no token in it or a descriptor that differs.
\<close>

theorem stored_credential_no_write:
  assumes run: "open_fbx ev host port st = (r, st')"
    and read: "readfile_app_token (self_token_file st) st = Inr (tok, tr, fdesc)"
  shows "(tok \<noteq> PNone \<and> (\<exists>d. fdesc = Some d \<and> dict_eq d (self_app_desc st)) \<longrightarrow>
            files st' = files st \<and> \<not> list_ex is_write (events_since st st'))
       \<and> (list_ex is_write (events_since st st') \<longrightarrow>
            tok = PNone
            \<or> (case fdesc of None \<Rightarrow> True | Some d \<Rightarrow> \<not> dict_eq d (self_app_desc st)))"
proof -
  have a: "files st' = files st \<and> \<not> list_ex is_write (events_since st st')"
    if "tok \<noteq> PNone" and "fdesc = Some d" and "dict_eq d (self_app_desc st)" for d
    using open_fbx_stored_quiet[OF read[unfolded that(2)] that(1,3) run] by simp
  show ?thesis
  proof (intro conjI impI)
    assume "tok \<noteq> PNone \<and> (\<exists>d. fdesc = Some d \<and> dict_eq d (self_app_desc st))"
    then show "files st' = files st" and "\<not> list_ex is_write (events_since st st')"
      using a by blast+
  next
    assume w: "list_ex is_write (events_since st st')"
    show "tok = PNone
            \<or> (case fdesc of None \<Rightarrow> True | Some d \<Rightarrow> \<not> dict_eq d (self_app_desc st))"
    proof (cases fdesc)
      case None
      then show ?thesis by simp
    next
      case (Some d)
      with a[OF _ Some] w show ?thesis by auto
    qed
  qed
qed

lemma stored_read:
  "readfile_app_token (self_token_file (stored_client demo_desc)) (stored_client demo_desc)
     = Inr (PStr ''old'', PInt 7, Some demo_desc)"
  by (simp add: stored_client_def init_client_def readfile_app_token_def demo_desc_def
      dict_get_list IDENTITY_KEYS_def List.map_filter_simps)

lemma demo_desc_eq: "dict_eq demo_desc (self_app_desc (stored_client demo_desc))"
  by (simp add: stored_client_def init_client_def dict_eq_def dict_le_def demo_desc_def
      dict_get_list)

text \<open>The demo client with a credential stored for its own descriptor.\<close>

theorem stored_credential_no_write_witness:
  "files (snd (open_fbx (demo_env []) PNone PNone (stored_client demo_desc)))
     = files (stored_client demo_desc)
   \<and> \<not> list_ex is_write (events_since (stored_client demo_desc)
          (snd (open_fbx (demo_env []) PNone PNone (stored_client demo_desc))))"
proof -
  have run: "open_fbx (demo_env []) PNone PNone (stored_client demo_desc)
             = (fst (open_fbx (demo_env []) PNone PNone (stored_client demo_desc)),
                snd (open_fbx (demo_env []) PNone PNone (stored_client demo_desc)))"
    by (rule surjective_pairing)
  have m: "PStr ''old'' \<noteq> PNone
           \<and> (\<exists>d. Some demo_desc = Some d \<and> dict_eq d (self_app_desc (stored_client demo_desc)))"
    using demo_desc_eq by simp
  from stored_credential_no_write[OF run stored_read, THEN conjunct1, rule_format, OF m]
  show ?thesis .
qed

subsection \<open>Reusing or replacing the stored credential\<close>

lemma loop_ends_granted:
  assumes "require_session st = None" and "\<forall>s\<in>set pre. \<not> terminal s"
  shows "fst (authorization_loop b t (pre @ ''granted'' # rest) flag st) = Done ()"
proof -
  from loop_nonterminal_prefix[OF assms, of b t "''granted'' # rest" flag]
  obtain flag' st1 where
    "authorization_loop b t (pre @ ''granted'' # rest) flag st
       = authorization_loop b t (''granted'' # rest) flag' st1"
    and "require_session st1 = None" by blast
  then show ?thesis by (simp only: loop_granted fst_conv)
qed















lemmas demo_eval =
  open_init_def discover.simps disc_check_session.simps discover_request_def
  disc_set_host_and_port_def disc_connect_def disc_close_to_return_def pooled_def
  has_live_session_def open_setup_def fbx_item_def dict_item_def dict_get_list
  check_api_version_def get_base_url_def demo_env_def demo_fbx_desc_def stored_client_def
  init_client_def emit_def py_eq_def py_int_def strip_ws_def is_space_def unsigned_int_def
  digits_val_def is_digit_def int_str_def char_of_def bit_Suc_0_iff Let_def
  DEFAULT_API_VERSION_def DEFAULT_DEVICE_NAME_def DEFAULT_HOST_def DEFAULT_HTTP_PORT_def
  DEFAULT_HTTPS_PORT_def DEFAULT_SSL_def DEFAULT_UNKNOWN_def




lemma stored_valid: "is_app_desc_valid (self_app_desc (stored_client fd))"
  by (simp add: stored_client_def init_client_def is_app_desc_valid_def IDENTITY_KEYS_def
      demo_desc_def dict_get_list)


lemma older_read:
  "readfile_app_token (self_token_file (stored_client older_desc)) (stored_client older_desc)
     = Inr (PStr ''old'', PInt 7, Some older_desc)"
  by (simp add: stored_client_def init_client_def readfile_app_token_def older_desc_def
      dict_get_list IDENTITY_KEYS_def List.map_filter_simps)

lemma older_differs: "\<not> dict_eq older_desc demo_desc"
  by (simp add: dict_eq_def dict_le_def demo_desc_def older_desc_def dict_get_list py_eq_def)






lemmas pairing_eval =
  open_fbx_def is_app_desc_valid_def IDENTITY_KEYS_def get_app_access_def readfile_app_token_def
  dict_eq_def dict_le_def get_app_token_def require_session_def get_authorization_status_def
  make_access_def writefile_app_token_def events_since_def fields_equal_def
  List.map_filter_simps older_desc_def wide_client_def wide_desc_def demo_desc_def

text \<open>
  C1 as stated fails. A valid descriptor with a fifth key is written to the file with
  that key and read back without it, so the comparison of \<open>_get_app_access\<close> fails
  although the four identity fields are equal, and \<open>open\<close> asks for authorization anew.
  And with a differing descriptor and an appliance that denies, \<open>open\<close> raises and the
  file is not overwritten.
\<close>

theorem credential_reuse_counterexample:
  "is_app_desc_valid wide_desc
   \<and> files wide_client ''app_auth''
       = Some (Json_object (wide_desc @ [(''app_token'', PStr ''old''), (''track_id'', PInt 7)]))
   \<and> fields_equal (wide_desc @ [(''app_token'', PStr ''old''), (''track_id'', PInt 7)]) wide_desc
   \<and> list_ex is_authorize
        (events_since wide_client (snd (open_fbx (demo_env [''granted'']) PNone PNone wide_client)))
   \<and> \<not> fields_equal (older_desc @ [(''app_token'', PStr ''old''), (''track_id'', PInt 7)]) demo_desc
   \<and> fst (open_fbx (demo_env [''denied'']) PNone PNone (stored_client older_desc))
       = Raise (AuthorizationError ''The app token is invalid or has been revoked.'')
   \<and> files (snd (open_fbx (demo_env [''denied'']) PNone PNone (stored_client older_desc)))
       = files (stored_client older_desc)"
  by (simp add: demo_eval pairing_eval)

subsection \<open>Probing twice\<close>












subsection \<open>An appliance that cannot be reached\<close>










lemma raised_first:
  "fst (discover (raising_env (PStr ''nohost.invalid'')) (PStr ''nohost.invalid'') PNone
          (init_client demo_desc ''app_auth'' ''v6'' Map.empty)) = Inl OSError"
  by (simp add: demo_eval raising_env_def)




text \<open>
  C6 as stated fails. For a host name that does not resolve the socket raises, the
  handler of \<open>_open_init\<close> does not catch it, and \<open>open\<close> raises the socket's exception
  and not \<open>NotOpenError\<close>. And on a client whose session is open, with a port that is
  not a number, the discovery returns the message of the conversion error as its result:
  \<open>open\<close> takes that for a successful discovery and completes.
\<close>

theorem open_cannot_reach_counterexample:
  "fst (discover (raising_env (PStr ''nohost.invalid'')) (PStr ''nohost.invalid'') PNone
          (init_client demo_desc ''app_auth'' ''v6'' Map.empty)) = Inl OSError
   \<and> fst (open_fbx (raising_env (PStr ''nohost.invalid'')) (PStr ''nohost.invalid'') PNone
          (init_client demo_desc ''app_auth'' ''v6'' Map.empty)) = Raise OSError
   \<and> fst (discover (demo_env [''granted'']) (PStr ''abcd.fbxos.fr'') (PStr ''abc'') demo_client)
       = Inr (Scalar (PStr ''invalid literal for int() with base 10''))
   \<and> fst (open_fbx (demo_env [''granted'']) (PStr ''abcd.fbxos.fr'') (PStr ''abc'') demo_client)
       = Done ()"
proof -
  have a: "fst (open_fbx (raising_env (PStr ''nohost.invalid'')) (PStr ''nohost.invalid'') PNone
          (init_client demo_desc ''app_auth'' ''v6'' Map.empty)) = Raise OSError"
    by (simp add: raising_env_def open_except_def demo_eval pairing_eval)
  have b: "fst (discover (demo_env [''granted'']) (PStr ''abcd.fbxos.fr'') (PStr ''abc'')
             demo_client) = Inr (Scalar (PStr ''invalid literal for int() with base 10''))"
    by (simp add: demo_client_def demo_eval)
  have c: "fst (open_fbx (demo_env [''granted'']) (PStr ''abcd.fbxos.fr'') (PStr ''abc'')
             demo_client) = Done ()"
    by (simp add: demo_client_def open_except_def demo_eval pairing_eval)
  from raised_first a b c show ?thesis by simp
qed

end
